theory Spec2Isabelle
  imports Main "HOL-Library.Sublist"
begin

section \<open>Enrollment and promotion engine of the school backend\<close>

text \<open>
  The development embeds the students service (\<^verbatim>\<open>StudentsService\<close>), the roll-number
  generator (\<^verbatim>\<open>generateRollNumber\<close>) and the unique indexes of the student and
  enrollment schemas. A document collection is a list in natural (insertion) order; every
  call takes the store and returns its result together with the store it leaves behind.
  An exception is the left summand of the result. A callback run by
  \<^verbatim>\<open>session.withTransaction\<close> that throws leaves the store as it was before the call.

  Conventions of the embedding:
  \<^item> identifiers and names are \<open>string\<close>s; an optional string field of a stored document
    that is absent is the empty string (both are falsy in the source), an optional field
    of a request body is an \<open>option\<close>;
  \<^item> dates are \<open>int\<close>s (milliseconds, what \<^verbatim>\<open>getTime()\<close> returns), numbers are
    \<open>int\<close>s or \<open>nat\<close>s (exact for every value below \<open>2 ^ 53\<close>);
  \<^item> characters are bytes; upper- and lower-casing and white space are the ASCII ones;
  \<^item> documents are stored as the service passes them: what the object mapper does while
    casting a document (trimming, required-field validation) is not part of the embedding,
    the unique indexes the schemas declare are.
\<close>

subsection \<open>Exceptions\<close>

text \<open>
  \<open>BadRequestException\<close> and \<open>NotFoundException\<close> are the two exception classes the
  students service raises. \<open>ConflictException\<close> is the framework's conflict class, which
  the academic-year service uses and the students service never constructs.
  \<open>MongoServerError\<close> is the storage driver's duplicate-key error (code 11000) with the
  key pattern of the violated index.
\<close>

datatype exn =
    BadRequestException string
  | NotFoundException string
  | ConflictException string
  | MongoServerError "string list"

fun isConflict :: "exn + 'a \<Rightarrow> bool" where
  "isConflict (Inl (ConflictException m)) = True"
| "isConflict r = False"

fun isBadRequest :: "exn + 'a \<Rightarrow> bool" where
  "isBadRequest (Inl (BadRequestException m)) = True"
| "isBadRequest r = False"

fun message :: "exn \<Rightarrow> string" where
  "message (BadRequestException m) = m"
| "message (NotFoundException m) = m"
| "message (ConflictException m) = m"
| "message (MongoServerError ks) = ''E11000 duplicate key error''"

subsection \<open>Strings\<close>

definition isDigit :: "char \<Rightarrow> bool" where
  "isDigit c = (48 \<le> (of_char c :: nat) \<and> (of_char c :: nat) \<le> 57)"

definition isSpace :: "char \<Rightarrow> bool" where
  "isSpace c = ((of_char c :: nat) = 32 \<or> (9 \<le> (of_char c :: nat) \<and> (of_char c :: nat) \<le> 13))"

definition digitVal :: "char \<Rightarrow> nat" where
  "digitVal c = (of_char c :: nat) - 48"

text \<open>\<^verbatim>\<open>parseInt(ds, 10)\<close> on a string of decimal digits.\<close>

definition parseInt :: "string \<Rightarrow> nat" where
  "parseInt ds = foldl (\<lambda>acc c. 10 * acc + digitVal c) 0 ds"

definition toUpperChar :: "char \<Rightarrow> char" where
  "toUpperChar c =
     (if 97 \<le> (of_char c :: nat) \<and> (of_char c :: nat) \<le> 122
      then char_of ((of_char c :: nat) - 32) else c)"

definition toLowerChar :: "char \<Rightarrow> char" where
  "toLowerChar c =
     (if 65 \<le> (of_char c :: nat) \<and> (of_char c :: nat) \<le> 90
      then char_of ((of_char c :: nat) + 32) else c)"

definition toUpperCase :: "string \<Rightarrow> string" where
  "toUpperCase s = map toUpperChar s"

definition toLowerCase :: "string \<Rightarrow> string" where
  "toLowerCase s = map toLowerChar s"

definition trim :: "string \<Rightarrow> string" where
  "trim s = rev (dropWhile isSpace (rev (dropWhile isSpace s)))"

text \<open>Truthiness of an optional string: \<^verbatim>\<open>undefined\<close> and \<^verbatim>\<open>''\<close> are falsy.\<close>

fun truthy :: "string option \<Rightarrow> bool" where
  "truthy None = False"
| "truthy (Some s) = (s \<noteq> [])"

subsection \<open>Academic years\<close>

text \<open>
  A stored academic-year document as the students service reads it: the fields of the
  schema (\<open>year_name\<close>, the dates, \<open>isActive\<close>, \<open>isCurrent\<close>) and the two further fields of
  the service's \<^verbatim>\<open>AcademicYearLike\<close> shape, \<open>label\<close> and \<open>year_order\<close>, which the
  schema does not declare. The service declares the dates optional.
\<close>

record AcademicYear =
  year_id :: string
  year_name :: string
  label :: "string option"
  year_order :: "int option"
  startDate :: "int option"
  endDate :: "int option"
  isActive :: bool
  isCurrent :: bool

text \<open>
  \<^verbatim>\<open>/^(\d{4})\s*-\s*(\d{4})$/.exec(String(label || ''))\<close>: four digits, optional white
  space, a hyphen, optional white space, four digits, end of input.
\<close>

fun fourDigits :: "string \<Rightarrow> (nat \<times> string) option" where
  "fourDigits (a # b # c # d # rest) =
     (if isDigit a \<and> isDigit b \<and> isDigit c \<and> isDigit d
      then Some (parseInt [a, b, c, d], rest) else None)"
| "fourDigits s = None"

definition parseYears :: "string \<Rightarrow> (nat \<times> nat) option" where
  "parseYears s =
     (case fourDigits s of
        None \<Rightarrow> None
      | Some (y1, r1) \<Rightarrow>
          (case dropWhile isSpace r1 of
             [] \<Rightarrow> None
           | h # r2 \<Rightarrow>
               if h \<noteq> CHR ''-'' then None
               else (case fourDigits (dropWhile isSpace r2) of
                       None \<Rightarrow> None
                     | Some (y2, r3) \<Rightarrow> if r3 = [] then Some (y1, y2) else None)))"

definition parseAYLabel :: "string option \<Rightarrow> (nat \<times> nat) option" where
  "parseAYLabel l = parseYears (case l of None \<Rightarrow> [] | Some s \<Rightarrow> s)"

definition getAcademicYearById :: "AcademicYear list \<Rightarrow> string \<Rightarrow> exn + AcademicYear" where
  "getAcademicYearById ys i =
     (case find (\<lambda>y. year_id y = i) ys of
        None \<Rightarrow> Inl (BadRequestException ''Academic year not found'')
      | Some doc \<Rightarrow> Inr doc)"

text \<open>
  The comparator of the fallback sort, \<^verbatim>\<open>dateB - dateA\<close>. A missing start date makes
  the difference \<^verbatim>\<open>NaN\<close>, which the sort reads as \<open>0\<close>. The sort is stable; it is
  written as an insertion sort, which agrees with every stable sort whenever all the
  compared years have a start date.
\<close>

definition compareStart :: "AcademicYear \<Rightarrow> AcademicYear \<Rightarrow> int" where
  "compareStart a b =
     (case (startDate a, startDate b) of
        (Some dateA, Some dateB) \<Rightarrow> dateB - dateA
      | _ \<Rightarrow> 0)"

fun insertYear :: "AcademicYear \<Rightarrow> AcademicYear list \<Rightarrow> AcademicYear list" where
  "insertYear a [] = [a]"
| "insertYear a (b # bs) = (if compareStart a b \<le> 0 then a # b # bs else b # insertYear a bs)"

definition sortYears :: "AcademicYear list \<Rightarrow> AcademicYear list" where
  "sortYears ys = foldr insertYear ys []"

definition msgNoCurrent :: string where
  "msgNoCurrent = ''No current or active academic year is set. Please set a current year first.''"

definition msgNotCurrent :: string where
  "msgNotCurrent = ''Promotion is only allowed from the current academic year. Please select the current academic year in the topbar.''"

definition assertIsCurrentAcademicYear :: "AcademicYear list \<Rightarrow> string \<Rightarrow> exn + unit" where
  "assertIsCurrentAcademicYear ys yearId =
     (case find isCurrent ys of
        Some current \<Rightarrow>
          if year_id current \<noteq> yearId then Inl (BadRequestException msgNotCurrent) else Inr ()
      | None \<Rightarrow>
          (case sortYears (filter isActive ys) of
             [] \<Rightarrow> Inl (BadRequestException msgNoCurrent)
           | current # rest \<Rightarrow>
               if year_id current \<noteq> yearId then Inl (BadRequestException msgNotCurrent)
               else Inr ()))"

definition msgSameYear :: string where
  "msgSameYear = ''Target academic year must be the next one (cannot use the same year).''"

definition msgNotNext :: string where
  "msgNotNext = ''Target academic year must be the immediate next year.''"

definition msgCannotVerify :: string where
  "msgCannotVerify = ''Cannot verify academic year sequence; ensure the target is the next year.''"

definition assertNextAcademicYear :: "AcademicYear list \<Rightarrow> string \<Rightarrow> string \<Rightarrow> exn + unit" where
  "assertNextAcademicYear ys fromId toId =
     (if fromId = toId then Inl (BadRequestException msgSameYear)
      else case getAcademicYearById ys fromId of
        Inl e \<Rightarrow> Inl e
      | Inr fromY \<Rightarrow>
          (case getAcademicYearById ys toId of
             Inl e \<Rightarrow> Inl e
           | Inr toY \<Rightarrow>
               (case (year_order fromY, year_order toY) of
                  (Some fo, Some tor) \<Rightarrow>
                    if tor \<noteq> fo + 1 then Inl (BadRequestException msgNotNext) else Inr ()
                | _ \<Rightarrow>
                    (case (parseAYLabel (label fromY), parseAYLabel (label toY)) of
                       (Some pf, Some pt) \<Rightarrow>
                         if fst pt = fst pf + 1 \<and> snd pt = snd pf + 1 then Inr ()
                         else Inl (BadRequestException msgNotNext)
                     | _ \<Rightarrow>
                         (case (endDate fromY, startDate toY) of
                            (Some fromEnd, Some toStart) \<Rightarrow>
                              if toStart > fromEnd then Inr ()
                              else Inl (BadRequestException msgCannotVerify)
                          | _ \<Rightarrow> Inl (BadRequestException msgCannotVerify))))))"

subsection \<open>Documents and the store\<close>

record SchoolClass =
  class_id :: string
  class_name :: string
  class_order :: "int option"

record Section =
  section_id :: string
  section_name :: string
  section_classId :: string

text \<open>
  The student document, reduced to its identity, the fields with a unique index and the
  snapshot of the current placement.
\<close>

record Student =
  student_id :: string
  student_name :: string
  email :: string
  uniqueId :: string
  rollNumber :: string
  classId :: string
  sectionId :: string
  academicYearId :: string

record Enrollment =
  enr_studentId :: string
  enr_academicYearId :: string
  enr_classId :: string
  enr_sectionId :: string
  enr_rollNumber :: string

record store =
  students :: "Student list"
  enrollments :: "Enrollment list"
  classes :: "SchoolClass list"
  sections :: "Section list"
  years :: "AcademicYear list"

definition findStudent :: "Student list \<Rightarrow> string \<Rightarrow> Student option" where
  "findStudent ss i = find (\<lambda>s. student_id s = i) ss"

definition findClass :: "SchoolClass list \<Rightarrow> string \<Rightarrow> SchoolClass option" where
  "findClass cs i = find (\<lambda>c. class_id c = i) cs"

definition findSection :: "Section list \<Rightarrow> string \<Rightarrow> Section option" where
  "findSection xs i = find (\<lambda>x. section_id x = i) xs"

text \<open>\<^verbatim>\<open>enrollmentModel.findOne({ studentId, academicYearId })\<close>.\<close>

definition findEnrollment :: "Enrollment list \<Rightarrow> string \<Rightarrow> string \<Rightarrow> Enrollment option" where
  "findEnrollment ledger sid ay =
     find (\<lambda>e. enr_studentId e = sid \<and> enr_academicYearId e = ay) ledger"

text \<open>
  The two unique indexes of the enrollment schema: one enrollment per student and year,
  one roll number per year. The result is the key pattern of a violated index.
\<close>

definition enrollmentDupKey :: "Enrollment list \<Rightarrow> Enrollment \<Rightarrow> string list option" where
  "enrollmentDupKey ledger doc =
     (if list_ex (\<lambda>e. enr_studentId e = enr_studentId doc
                     \<and> enr_academicYearId e = enr_academicYearId doc) ledger
      then Some [''studentId'', ''academicYearId'']
      else if list_ex (\<lambda>e. enr_academicYearId e = enr_academicYearId doc
                          \<and> enr_rollNumber e = enr_rollNumber doc) ledger
      then Some [''academicYearId'', ''rollNumber'']
      else None)"

text \<open>\<^verbatim>\<open>enrollmentModel.create([doc], { session })\<close>.\<close>

definition createEnrollment :: "Enrollment list \<Rightarrow> Enrollment \<Rightarrow> exn + Enrollment list" where
  "createEnrollment ledger doc =
     (case enrollmentDupKey ledger doc of
        Some ks \<Rightarrow> Inl (MongoServerError ks)
      | None \<Rightarrow> Inr (ledger @ [doc]))"

text \<open>
  \<^verbatim>\<open>insertMany(docs, { session, ordered: false })\<close> inside \<^verbatim>\<open>try { } catch { }\<close>:
  every document that violates no index is inserted, the others are dropped and the error
  is swallowed.
\<close>

fun insertManyUnordered :: "Enrollment list \<Rightarrow> Enrollment list \<Rightarrow> Enrollment list" where
  "insertManyUnordered ledger [] = ledger"
| "insertManyUnordered ledger (d # ds) =
     insertManyUnordered
       (case createEnrollment ledger d of Inl e \<Rightarrow> ledger | Inr ledger' \<Rightarrow> ledger') ds"

text \<open>
  The unique indexes of the student schema, checked against the documents of the
  collection when one is inserted: \<open>email\<close>, \<open>uniqueId\<close>, and the roll number within
  an academic year.
\<close>

definition studentDupKey :: "Student list \<Rightarrow> Student \<Rightarrow> string list option" where
  "studentDupKey others doc =
     (if list_ex (\<lambda>s. email s = email doc) others then Some [''email'']
      else if list_ex (\<lambda>s. uniqueId s = uniqueId doc) others then Some [''uniqueId'']
      else if list_ex (\<lambda>s. academicYearId s = academicYearId doc
                          \<and> rollNumber s = rollNumber doc) others
      then Some [''academicYearId'', ''rollNumber'']
      else None)"

text \<open>
  An update re-checks a unique index only when it changes the key of that index.
\<close>

definition studentUpdateDupKey :: "Student list \<Rightarrow> Student \<Rightarrow> Student \<Rightarrow> string list option" where
  "studentUpdateDupKey others old new =
     (if email new \<noteq> email old \<and> list_ex (\<lambda>s. email s = email new) others
      then Some [''email'']
      else if uniqueId new \<noteq> uniqueId old \<and> list_ex (\<lambda>s. uniqueId s = uniqueId new) others
      then Some [''uniqueId'']
      else if (academicYearId new \<noteq> academicYearId old \<or> rollNumber new \<noteq> rollNumber old)
              \<and> list_ex (\<lambda>s. academicYearId s = academicYearId new
                             \<and> rollNumber s = rollNumber new) others
      then Some [''academicYearId'', ''rollNumber'']
      else None)"

text \<open>
  Writing the fields \<open>f\<close> sets into the student with identifier \<open>i\<close>
  (\<^verbatim>\<open>student.save\<close>, \<^verbatim>\<open>findByIdAndUpdate\<close>, \<^verbatim>\<open>updateOne\<close>). No document with that
  identifier: nothing is written and nothing is raised.
\<close>

definition updateStudent :: "Student list \<Rightarrow> string \<Rightarrow> (Student \<Rightarrow> Student) \<Rightarrow> exn + Student list" where
  "updateStudent ss i f =
     (case findStudent ss i of
        None \<Rightarrow> Inr ss
      | Some s \<Rightarrow>
          (case studentUpdateDupKey (filter (\<lambda>x. student_id x \<noteq> i) ss) s (f s) of
             Some ks \<Rightarrow> Inl (MongoServerError ks)
           | None \<Rightarrow> Inr (map (\<lambda>x. if student_id x = i then f s else x) ss)))"

subsection \<open>Roll numbers\<close>

definition isPrefixOf :: "string \<Rightarrow> string \<Rightarrow> bool" where
  "isPrefixOf p s = (take (length p) s = p)"

text \<open>The storage engine orders strings byte by byte.\<close>

fun strLess :: "string \<Rightarrow> string \<Rightarrow> bool" where
  "strLess [] [] = False"
| "strLess [] (y # ys) = True"
| "strLess (x # xs) [] = False"
| "strLess (x # xs) (y # ys) =
     (if (of_char x :: nat) < of_char y then True
      else if (of_char y :: nat) < of_char x then False
      else strLess xs ys)"

text \<open>The first document of \<^verbatim>\<open>.sort({ rollNumber: -1 })\<close>.\<close>

fun greatest :: "string list \<Rightarrow> string option" where
  "greatest [] = None"
| "greatest (x # xs) =
     (case greatest xs of
        None \<Rightarrow> Some x
      | Some m \<Rightarrow> if strLess x m then Some m else Some x)"

text \<open>The group of \<^verbatim>\<open>/(\d+)$/\<close>: the longest run of digits that ends the string.\<close>

definition trailingDigits :: "string \<Rightarrow> string" where
  "trailingDigits s = rev (takeWhile isDigit (rev s))"

text \<open>\<^verbatim>\<open>String(n)\<close>.\<close>

fun toDecimal :: "nat \<Rightarrow> string" where
  "toDecimal n =
     (if n < 10 then [char_of (48 + n)]
      else toDecimal (n div 10) @ [char_of (48 + n mod 10)])"

declare toDecimal.simps [simp del]

definition padStart :: "nat \<Rightarrow> char \<Rightarrow> string \<Rightarrow> string" where
  "padStart w c s = replicate (w - length s) c @ s"

definition rollPrefix :: "string \<Rightarrow> string \<Rightarrow> string" where
  "rollPrefix className sectionName =
     trim (toUpperCase className) @ ''-'' @ trim (toUpperCase sectionName) @ ''-''"

definition latestRoll :: "Enrollment list \<Rightarrow> string \<Rightarrow> string \<Rightarrow> string option" where
  "latestRoll ledger ay pfx =
     greatest (map enr_rollNumber
       (filter (\<lambda>e. enr_academicYearId e = ay \<and> isPrefixOf pfx (enr_rollNumber e)) ledger))"

definition generateRollNumber :: "Enrollment list \<Rightarrow> string \<Rightarrow> string \<Rightarrow> string \<Rightarrow> string" where
  "generateRollNumber ledger className sectionName ay =
     (let pfx = rollPrefix className sectionName;
          nextNumber =
            (case latestRoll ledger ay pfx of
               None \<Rightarrow> 1
             | Some r \<Rightarrow>
                 (case trailingDigits r of
                    [] \<Rightarrow> 1
                  | d # ds \<Rightarrow> parseInt (d # ds) + 1))
      in pfx @ padStart 3 (CHR ''0'') (toDecimal nextNumber))"

subsection \<open>Single promotion and re-admission\<close>

definition msgAlreadyEnrolled :: string where
  "msgAlreadyEnrolled = ''Student already has an enrollment for this academic year''"

definition promote :: "store \<Rightarrow> string \<Rightarrow> string \<Rightarrow> string \<Rightarrow> string \<Rightarrow> (exn + Student) \<times> store" where
  "promote st studentId cId secId ay =
     (case findStudent (students st) studentId of
        None \<Rightarrow> (Inl (NotFoundException ''Student not found''), st)
      | Some student \<Rightarrow>
     (case assertIsCurrentAcademicYear (years st) (academicYearId student) of
        Inl e \<Rightarrow> (Inl e, st)
      | Inr u \<Rightarrow>
     (case assertNextAcademicYear (years st) (academicYearId student) ay of
        Inl e \<Rightarrow> (Inl e, st)
      | Inr u \<Rightarrow>
     (case findEnrollment (enrollments st) studentId ay of
        Some existing \<Rightarrow> (Inl (BadRequestException msgAlreadyEnrolled), st)
      | None \<Rightarrow>
     (case createEnrollment (enrollments st)
             \<lparr>enr_studentId = studentId, enr_academicYearId = ay, enr_classId = cId,
              enr_sectionId = secId, enr_rollNumber = rollNumber student\<rparr> of
        Inl e \<Rightarrow> (Inl e, st)
      | Inr ledger \<Rightarrow>
     (case updateStudent (students st) studentId
             (\<lambda>s. s\<lparr>classId := cId, sectionId := secId, academicYearId := ay\<rparr>) of
        Inl e \<Rightarrow> (Inl e, st)
      | Inr ss \<Rightarrow>
          (Inr (student\<lparr>classId := cId, sectionId := secId, academicYearId := ay\<rparr>),
           st\<lparr>enrollments := ledger, students := ss\<rparr>)))))))"

definition reAdmit :: "store \<Rightarrow> string \<Rightarrow> string \<Rightarrow> string \<Rightarrow> string \<Rightarrow> (exn + Student) \<times> store" where
  "reAdmit st studentId cId secId ay =
     (case findStudent (students st) studentId of
        None \<Rightarrow> (Inl (NotFoundException ''Student not found''), st)
      | Some student \<Rightarrow>
     (case findEnrollment (enrollments st) studentId ay of
        Some existing \<Rightarrow> (Inl (BadRequestException msgAlreadyEnrolled), st)
      | None \<Rightarrow>
     (case findClass (classes st) cId of
        None \<Rightarrow> (Inl (BadRequestException ''Class not found''), st)
      | Some classDoc \<Rightarrow>
     (case findSection (sections st) secId of
        None \<Rightarrow> (Inl (BadRequestException ''Section not found''), st)
      | Some sectionDoc \<Rightarrow>
     (let roll = generateRollNumber (enrollments st) (class_name classDoc)
                   (section_name sectionDoc) ay
      in
     (case createEnrollment (enrollments st)
             \<lparr>enr_studentId = studentId, enr_academicYearId = ay, enr_classId = cId,
              enr_sectionId = secId, enr_rollNumber = roll\<rparr> of
        Inl e \<Rightarrow> (Inl e, st)
      | Inr ledger \<Rightarrow>
     (case updateStudent (students st) studentId
             (\<lambda>s. s\<lparr>classId := cId, sectionId := secId, academicYearId := ay,
                     rollNumber := roll\<rparr>) of
        Inl e \<Rightarrow> (Inl e, st)
      | Inr ss \<Rightarrow>
          (Inr (student\<lparr>classId := cId, sectionId := secId, academicYearId := ay,
                        rollNumber := roll\<rparr>),
           st\<lparr>enrollments := ledger, students := ss\<rparr>))))))))"

subsection \<open>Bulk promotion\<close>

record PromoteBulkDto =
  fromClassId :: string
  fromSectionId :: "string option"
  fromAcademicYearId :: "string option"
  toAcademicYearId :: string
  targetClassId :: "string option"
  targetSectionId :: "string option"
  studentIds :: "string list option"

record PromoteBulkResult =
  selected :: nat
  matched :: nat
  modified :: nat
  res_toAcademicYearId :: "string option"
  res_targetClassId :: "string option"
  res_targetSectionId :: "string option"

text \<open>\<^verbatim>\<open>dto.fromAcademicYearId || headerAY\<close>.\<close>

definition sourceYear :: "PromoteBulkDto \<Rightarrow> string option \<Rightarrow> string option" where
  "sourceYear dto headerAY =
     (if truthy (fromAcademicYearId dto) then fromAcademicYearId dto else headerAY)"

text \<open>The candidate filter.\<close>

definition candidates :: "Student list \<Rightarrow> PromoteBulkDto \<Rightarrow> string \<Rightarrow> Student list" where
  "candidates ss dto fromAY =
     filter (\<lambda>s. classId s = fromClassId dto \<and> academicYearId s = fromAY
                \<and> (case fromSectionId dto of
                      None \<Rightarrow> True
                    | Some sec \<Rightarrow> sec = [] \<or> sectionId s = sec)
                \<and> (case studentIds dto of
                      None \<Rightarrow> True
                    | Some ids \<Rightarrow> ids = [] \<or> student_id s \<in> set ids)) ss"

text \<open>\<^verbatim>\<open>dto.studentIds?.length || 0\<close>.\<close>

definition selectedCount :: "PromoteBulkDto \<Rightarrow> nat" where
  "selectedCount dto = (case studentIds dto of None \<Rightarrow> 0 | Some ids \<Rightarrow> length ids)"

text \<open>
  \<^verbatim>\<open>classModel.findOne({ order: { $gt: o } }).sort({ order: 1 })\<close>: the class of least
  order above \<open>cur\<close>; a class without an order never matches.
\<close>

fun nextClass :: "SchoolClass list \<Rightarrow> int \<Rightarrow> SchoolClass option" where
  "nextClass [] cur = None"
| "nextClass (c # cs) cur =
     (case class_order c of
        None \<Rightarrow> nextClass cs cur
      | Some k \<Rightarrow>
          if k > cur then
            (case nextClass cs cur of
               None \<Rightarrow> Some c
             | Some d \<Rightarrow> if the (class_order d) < k then Some d else Some c)
          else nextClass cs cur)"

definition resolveTargetClass :: "SchoolClass list \<Rightarrow> PromoteBulkDto \<Rightarrow> exn + string" where
  "resolveTargetClass cs dto =
     (if truthy (targetClassId dto) then Inr (the (targetClassId dto))
      else case findClass cs (fromClassId dto) of
        None \<Rightarrow> Inl (BadRequestException
                  ''Cannot infer next class: current class not found or has no order'')
      | Some currentClass \<Rightarrow>
          (case class_order currentClass of
             None \<Rightarrow> Inl (BadRequestException
                       ''Cannot infer next class: current class not found or has no order'')
           | Some cur \<Rightarrow>
               (case nextClass cs cur of
                  None \<Rightarrow> Inl (BadRequestException
                            ''No next class configured after current class'')
                | Some nxt \<Rightarrow> Inr (class_id nxt))))"

text \<open>
  The section mapping, an association list from a source section to the section of the
  same lower-cased name in the target class. \<open>None\<close> is the source's \<^verbatim>\<open>null\<close>: an
  explicit target section, or no candidate with a section.
\<close>

definition buildMapping :: "Section list \<Rightarrow> Section list \<Rightarrow> (string \<times> string) list" where
  "buildMapping sourceSections targetSections =
     foldl (\<lambda>m srcSection.
              case find (\<lambda>t. toLowerCase (section_name t) = toLowerCase (section_name srcSection))
                     targetSections of
                None \<Rightarrow> m
              | Some matchingTarget \<Rightarrow> (section_id srcSection, section_id matchingTarget) # m)
       [] sourceSections"

definition sectionMapping :: "Section list \<Rightarrow> PromoteBulkDto \<Rightarrow> string \<Rightarrow> Student list
    \<Rightarrow> (string \<times> string) list option" where
  "sectionMapping xs dto target cands =
     (if truthy (targetSectionId dto) then None
      else let uniqueSectionIds = remdups (filter (\<lambda>i. i \<noteq> []) (map sectionId cands)) in
        if uniqueSectionIds = [] then None
        else Some (buildMapping
                     (filter (\<lambda>x. section_id x \<in> set uniqueSectionIds) xs)
                     (filter (\<lambda>x. section_classId x = target) xs)))"

definition msgNoMatch :: "string \<Rightarrow> string" where
  "msgNoMatch currentSectionId =
     ''No matching section found in target class for section ID: '' @ currentSectionId
       @ ''. Please specify a target section.''"

definition getTargetSectionId :: "PromoteBulkDto \<Rightarrow> (string \<times> string) list option \<Rightarrow> string
    \<Rightarrow> exn + string" where
  "getTargetSectionId dto mapping currentSectionId =
     (if truthy (targetSectionId dto) then Inr (the (targetSectionId dto))
      else case mapping of
        None \<Rightarrow> Inr currentSectionId
      | Some m \<Rightarrow>
          if currentSectionId = [] then Inr currentSectionId
          else (case map_of m currentSectionId of
                  None \<Rightarrow> Inl (BadRequestException (msgNoMatch currentSectionId))
                | Some mapped \<Rightarrow>
                    if mapped = [] then Inl (BadRequestException (msgNoMatch currentSectionId))
                    else Inr mapped))"

text \<open>\<^verbatim>\<open>students.map(s => ...)\<close> with a callback that may throw: the first exception wins.\<close>

fun traverse :: "('a \<Rightarrow> exn + 'b) \<Rightarrow> 'a list \<Rightarrow> exn + 'b list" where
  "traverse f [] = Inr []"
| "traverse f (x # xs) =
     (case f x of
        Inl e \<Rightarrow> Inl e
      | Inr y \<Rightarrow> (case traverse f xs of Inl e \<Rightarrow> Inl e | Inr ys \<Rightarrow> Inr (y # ys)))"

text \<open>
  \<^verbatim>\<open>studentModel.bulkWrite(bulkOps, { session })\<close>, ordered: the updates run in order and
  the first error is thrown. An operation is the student's identifier with the class,
  year and section it sets. The count is \<^verbatim>\<open>modifiedCount\<close>, the documents an update
  changed.
\<close>

fun bulkWrite :: "Student list \<Rightarrow> (string \<times> string \<times> string \<times> string) list \<Rightarrow> exn + Student list \<times> nat" where
  "bulkWrite ss [] = Inr (ss, 0)"
| "bulkWrite ss ((i, c, y, x) # ops) =
     (case updateStudent ss i (\<lambda>s. s\<lparr>classId := c, academicYearId := y, sectionId := x\<rparr>) of
        Inl e \<Rightarrow> Inl e
      | Inr ss' \<Rightarrow>
          (case bulkWrite ss' ops of
             Inl e \<Rightarrow> Inl e
           | Inr (ss'', n) \<Rightarrow> Inr (ss'', (if ss' = ss then n else Suc n))))"

definition promoteBulk :: "store \<Rightarrow> PromoteBulkDto \<Rightarrow> string option \<Rightarrow> (exn + PromoteBulkResult) \<times> store" where
  "promoteBulk st dto headerAY =
     (if \<not> truthy (sourceYear dto headerAY)
      then (Inl (BadRequestException ''fromAcademicYearId (or x-academic-year-id) is required''), st)
      else let fromAY = the (sourceYear dto headerAY) in
     (case assertIsCurrentAcademicYear (years st) fromAY of
        Inl e \<Rightarrow> (Inl e, st)
      | Inr u \<Rightarrow>
     (let cands = candidates (students st) dto fromAY in
      if cands = []
      then (Inr \<lparr>selected = selectedCount dto, matched = 0, modified = 0,
                 res_toAcademicYearId = None, res_targetClassId = None,
                 res_targetSectionId = None\<rparr>, st)
      else
     (case assertNextAcademicYear (years st) fromAY (toAcademicYearId dto) of
        Inl e \<Rightarrow> (Inl e, st)
      | Inr u \<Rightarrow>
     (case resolveTargetClass (classes st) dto of
        Inl e \<Rightarrow> (Inl e, st)
      | Inr target \<Rightarrow>
     (let mapping = sectionMapping (sections st) dto target cands in
     (case traverse (\<lambda>s. getTargetSectionId dto mapping (sectionId s)) cands of
        Inl e \<Rightarrow> (Inl e, st)
      | Inr secs \<Rightarrow>
     (let docs = map (\<lambda>(s, x). \<lparr>enr_studentId = student_id s,
                                enr_academicYearId = toAcademicYearId dto,
                                enr_classId = target, enr_sectionId = x,
                                enr_rollNumber = rollNumber s\<rparr>) (zip cands secs);
          ledger = insertManyUnordered (enrollments st) docs;
          bulkOps = map (\<lambda>(s, x). (student_id s, target, toAcademicYearId dto, x))
                      (zip cands secs)
      in
     (case bulkWrite (students st) bulkOps of
        Inl e \<Rightarrow> (Inl e, st)
      | Inr (ss, n) \<Rightarrow>
          (Inr \<lparr>selected = length cands, matched = length cands, modified = n,
                res_toAcademicYearId = Some (toAcademicYearId dto),
                res_targetClassId = Some target,
                res_targetSectionId = targetSectionId dto\<rparr>,
           st\<lparr>enrollments := ledger, students := ss\<rparr>))))))))))"

subsection \<open>Bulk re-admission\<close>

record BulkError =
  err_studentId :: string
  err_name :: string
  err_error :: string

record ReAdmitBulkResult =
  total :: nat
  successful :: nat
  failed :: nat
  errors :: "BulkError list option"

definition msgAlreadyEnrolledBulk :: string where
  "msgAlreadyEnrolledBulk = ''Already enrolled for this year''"

text \<open>
  The body of the loop over the fetched students. The state of the loop is the store, the
  success count and the list of error records. An exception of the \<^verbatim>\<open>try\<close> block is
  caught and recorded; what the block wrote before it stays written.
\<close>

definition reAdmitStep :: "string \<Rightarrow> string \<Rightarrow> string \<Rightarrow> string \<Rightarrow> string \<Rightarrow> Student
    \<Rightarrow> store \<times> nat \<times> BulkError list \<Rightarrow> store \<times> nat \<times> BulkError list" where
  "reAdmitStep cId secId ay className sectionName student acc =
     (case acc of (st, successCount, errs) \<Rightarrow>
        (case findEnrollment (enrollments st) (student_id student) ay of
           Some existing \<Rightarrow>
             (st, successCount,
              errs @ [\<lparr>err_studentId = student_id student, err_name = student_name student,
                       err_error = msgAlreadyEnrolledBulk\<rparr>])
         | None \<Rightarrow>
             (let roll = generateRollNumber (enrollments st) className sectionName ay in
              case createEnrollment (enrollments st)
                     \<lparr>enr_studentId = student_id student, enr_academicYearId = ay,
                      enr_classId = cId, enr_sectionId = secId, enr_rollNumber = roll\<rparr> of
                Inl e \<Rightarrow>
                  (st, successCount,
                   errs @ [\<lparr>err_studentId = student_id student,
                            err_name = student_name student, err_error = message e\<rparr>])
              | Inr ledger \<Rightarrow>
                  (case updateStudent (students st) (student_id student)
                          (\<lambda>s. s\<lparr>classId := cId, sectionId := secId, academicYearId := ay,
                                  rollNumber := roll\<rparr>) of
                     Inl e \<Rightarrow>
                       (st\<lparr>enrollments := ledger\<rparr>, successCount,
                        errs @ [\<lparr>err_studentId = student_id student,
                                 err_name = student_name student, err_error = message e\<rparr>])
                   | Inr ss \<Rightarrow>
                       (st\<lparr>enrollments := ledger, students := ss\<rparr>, Suc successCount, errs)))))"

fun reAdmitLoop :: "string \<Rightarrow> string \<Rightarrow> string \<Rightarrow> string \<Rightarrow> string \<Rightarrow> Student list
    \<Rightarrow> store \<times> nat \<times> BulkError list \<Rightarrow> store \<times> nat \<times> BulkError list" where
  "reAdmitLoop cId secId ay className sectionName [] acc = acc"
| "reAdmitLoop cId secId ay className sectionName (student # rest) acc =
     reAdmitLoop cId secId ay className sectionName rest
       (reAdmitStep cId secId ay className sectionName student acc)"

definition reAdmitBulk :: "store \<Rightarrow> string list \<Rightarrow> string \<Rightarrow> string \<Rightarrow> string
    \<Rightarrow> (exn + ReAdmitBulkResult) \<times> store" where
  "reAdmitBulk st ids cId secId ay =
     (if ids = [] then (Inl (BadRequestException ''Student IDs are required''), st)
      else case findClass (classes st) cId of
        None \<Rightarrow> (Inl (BadRequestException ''Class not found''), st)
      | Some classDoc \<Rightarrow>
     (case findSection (sections st) secId of
        None \<Rightarrow> (Inl (BadRequestException ''Section not found''), st)
      | Some sectionDoc \<Rightarrow>
     (let found = filter (\<lambda>s. student_id s \<in> set ids) (students st) in
      if found = [] then (Inl (BadRequestException ''No valid students found''), st)
      else
        (case reAdmitLoop cId secId ay (class_name classDoc) (section_name sectionDoc) found
                (st, 0, []) of
           (st', successCount, errs) \<Rightarrow>
             (Inr \<lparr>total = length ids, successful = successCount, failed = length errs,
                   errors = (if errs = [] then None else Some errs)\<rparr>, st')))))"

subsection \<open>Creating, updating and deleting a student\<close>

text \<open>
  The request bodies, reduced to the fields the embedded store holds. The declarations of
  the two classes are not part of the sources at hand; the fields are the ones the
  service reads.
\<close>

record CreateStudentDto =
  new_name :: string
  new_email :: string
  new_classId :: "string option"
  new_sectionId :: "string option"
  new_academicYearId :: string

record UpdateStudentDto =
  upd_name :: "string option"
  upd_email :: "string option"
  upd_rollNumber :: "string option"
  upd_classId :: "string option"
  upd_sectionId :: "string option"
  upd_academicYearId :: "string option"

definition normEmail :: "string \<Rightarrow> string" where
  "normEmail e = toLowerCase (trim e)"

definition normRoll :: "string \<Rightarrow> string" where
  "normRoll r = trim r"

definition handleDupKey :: "exn \<Rightarrow> exn" where
  "handleDupKey err =
     (case err of
        MongoServerError keys \<Rightarrow>
          if ''email'' \<in> set keys then BadRequestException ''Email already exists''
          else if ''rollNumber'' \<in> set keys
          then BadRequestException ''Roll number already exists for this academic year''
          else BadRequestException ''Duplicate key error''
      | e \<Rightarrow> e)"

text \<open>
  \<^verbatim>\<open>generateUniqueId(model, 'STU')\<close>; the calendar year of the clock is a parameter.
\<close>

definition generateStudentId :: "Student list \<Rightarrow> nat \<Rightarrow> string" where
  "generateStudentId ss currentYear =
     (let yearPattern = ''STU-'' @ toDecimal currentYear @ ''-'';
          nextNumber =
            (case greatest (filter (isPrefixOf yearPattern) (map uniqueId ss)) of
               None \<Rightarrow> 1
             | Some u \<Rightarrow>
                 (case trailingDigits u of
                    [] \<Rightarrow> 1
                  | d # ds \<Rightarrow> parseInt (d # ds) + 1))
      in yearPattern @ padStart 4 (CHR ''0'') (toDecimal nextNumber))"

text \<open>
  \<^verbatim>\<open>studentModel.create([doc], { session })\<close>: the identifier the storage engine assigns
  is a parameter; identifiers are unique.
\<close>

definition createStudent :: "Student list \<Rightarrow> Student \<Rightarrow> exn + Student list" where
  "createStudent ss doc =
     (if list_ex (\<lambda>s. student_id s = student_id doc) ss then Inl (MongoServerError [''_id''])
      else case studentDupKey ss doc of
        Some ks \<Rightarrow> Inl (MongoServerError ks)
      | None \<Rightarrow> Inr (ss @ [doc]))"

definition create :: "store \<Rightarrow> string \<Rightarrow> nat \<Rightarrow> CreateStudentDto \<Rightarrow> (exn + Student) \<times> store" where
  "create st newId currentYear dto =
     (let em = normEmail (new_email dto) in
      if list_ex (\<lambda>s. email s = em) (students st)
      then (Inl (BadRequestException ''Email already exists''), st)
      else
     (case (if truthy (new_classId dto) \<and> truthy (new_sectionId dto)
            then (case findClass (classes st) (the (new_classId dto)) of
                    None \<Rightarrow> Inl (BadRequestException ''Class not found'')
                  | Some classDoc \<Rightarrow>
                      (case findSection (sections st) (the (new_sectionId dto)) of
                         None \<Rightarrow> Inl (BadRequestException ''Section not found'')
                       | Some sectionDoc \<Rightarrow>
                           Inr (generateRollNumber (enrollments st) (class_name classDoc)
                                  (section_name sectionDoc) (new_academicYearId dto))))
            else Inr ''TBD'') of
        Inl e \<Rightarrow> (Inl e, st)
      | Inr roll \<Rightarrow>
     (let s = \<lparr>student_id = newId, student_name = trim (new_name dto), email = em,
               uniqueId = generateStudentId (students st) currentYear, rollNumber = roll,
               classId = (case new_classId dto of None \<Rightarrow> [] | Some c \<Rightarrow> c),
               sectionId = (case new_sectionId dto of None \<Rightarrow> [] | Some x \<Rightarrow> x),
               academicYearId = new_academicYearId dto\<rparr>
      in
     (case createStudent (students st) s of
        Inl e \<Rightarrow> (Inl (handleDupKey e), st)
      | Inr ss \<Rightarrow>
     (case createEnrollment (enrollments st)
             \<lparr>enr_studentId = newId, enr_academicYearId = new_academicYearId dto,
              enr_classId = classId s, enr_sectionId = sectionId s,
              enr_rollNumber = roll\<rparr> of
        Inl e \<Rightarrow> (Inl (handleDupKey e), st)
      | Inr ledger \<Rightarrow> (Inr s, st\<lparr>students := ss, enrollments := ledger\<rparr>))))))"

text \<open>
  \<^verbatim>\<open>enrollmentModel.findOneAndUpdate({ studentId, academicYearId }, { $set: { classId,
  sectionId } }, { upsert: false })\<close>: the first matching entry is rewritten.
\<close>

fun setPlacement :: "Enrollment list \<Rightarrow> string \<Rightarrow> string \<Rightarrow> string \<Rightarrow> string \<Rightarrow> Enrollment list" where
  "setPlacement [] sid ay c x = []"
| "setPlacement (e # es) sid ay c x =
     (if enr_studentId e = sid \<and> enr_academicYearId e = ay
      then e\<lparr>enr_classId := c, enr_sectionId := x\<rparr> # es
      else e # setPlacement es sid ay c x)"

definition orElse :: "string option \<Rightarrow> string \<Rightarrow> string" where
  "orElse v d = (case v of None \<Rightarrow> d | Some x \<Rightarrow> x)"

definition toUpdate :: "UpdateStudentDto \<Rightarrow> Student \<Rightarrow> Student" where
  "toUpdate dto s =
     s\<lparr>student_name := (case upd_name dto of None \<Rightarrow> student_name s | Some n \<Rightarrow> trim n),
       email := (case upd_email dto of None \<Rightarrow> email s | Some e \<Rightarrow> normEmail e),
       rollNumber := (case upd_rollNumber dto of None \<Rightarrow> rollNumber s | Some r \<Rightarrow> normRoll r),
       classId := orElse (upd_classId dto) (classId s),
       sectionId := orElse (upd_sectionId dto) (sectionId s),
       academicYearId := orElse (upd_academicYearId dto) (academicYearId s)\<rparr>"

definition update :: "store \<Rightarrow> string \<Rightarrow> UpdateStudentDto \<Rightarrow> (exn + Student option) \<times> store" where
  "update st i dto =
     (if (case upd_email dto of
            None \<Rightarrow> False
          | Some e \<Rightarrow> list_ex (\<lambda>s. email s = normEmail e \<and> student_id s \<noteq> i) (students st))
      then (Inl (BadRequestException ''Email already exists''), st)
      else if (upd_academicYearId dto \<noteq> None \<or> upd_rollNumber dto \<noteq> None)
              \<and> findStudent (students st) i = None
      then (Inl (BadRequestException ''Student not found''), st)
      else if (upd_academicYearId dto \<noteq> None \<or> upd_rollNumber dto \<noteq> None)
              \<and> list_ex (\<lambda>s. academicYearId s
                                 = orElse (upd_academicYearId dto)
                                     (academicYearId (the (findStudent (students st) i)))
                             \<and> rollNumber s
                                 = (case upd_rollNumber dto of
                                      None \<Rightarrow> rollNumber (the (findStudent (students st) i))
                                    | Some r \<Rightarrow> normRoll r)
                             \<and> student_id s \<noteq> i) (students st)
      then (Inl (BadRequestException ''Roll number already exists for this academic year''), st)
      else if (upd_classId dto \<noteq> None \<or> upd_sectionId dto \<noteq> None)
              \<and> findStudent (students st) i = None
      then (Inl (BadRequestException ''Student not found''), st)
      else
        (let ledger =
               (if upd_classId dto \<noteq> None \<or> upd_sectionId dto \<noteq> None
                then (let currentStudent = the (findStudent (students st) i) in
                      setPlacement (enrollments st) i (academicYearId currentStudent)
                        (orElse (upd_classId dto) (classId currentStudent))
                        (orElse (upd_sectionId dto) (sectionId currentStudent)))
                else enrollments st)
         in case updateStudent (students st) i (toUpdate dto) of
              Inl e \<Rightarrow> (Inl (handleDupKey e), st\<lparr>enrollments := ledger\<rparr>)
            | Inr ss \<Rightarrow> (Inr (findStudent ss i), st\<lparr>enrollments := ledger, students := ss\<rparr>)))"

text \<open>\<^verbatim>\<open>findByIdAndDelete\<close>: the student document goes, its enrollments stay.\<close>

definition delete :: "store \<Rightarrow> string \<Rightarrow> Student option \<times> store" where
  "delete st i =
     (findStudent (students st) i,
      st\<lparr>students := filter (\<lambda>s. student_id s \<noteq> i) (students st)\<rparr>)"

text \<open>
  \<^verbatim>\<open>updateDocuments\<close> and \<^verbatim>\<open>updatePassword\<close> write the uploads and the password hash
  of a student, fields outside the embedded document.
\<close>

definition updateDocuments :: "store \<Rightarrow> string \<Rightarrow> (exn + Student) \<times> store" where
  "updateDocuments st i =
     (case findStudent (students st) i of
        None \<Rightarrow> (Inl (NotFoundException ''Student not found''), st)
      | Some updated \<Rightarrow> (Inr updated, st))"

definition updatePassword :: "store \<Rightarrow> string \<Rightarrow> (exn + string) \<times> store" where
  "updatePassword st i =
     (case findStudent (students st) i of
        None \<Rightarrow> (Inl (NotFoundException ''Student not found''), st)
      | Some updated \<Rightarrow> (Inr ''Password updated successfully'', st))"

subsection \<open>The writing operations as one transition system\<close>

datatype call =
    Create string nat CreateStudentDto
  | Update string UpdateStudentDto
  | UpdateDocuments string
  | UpdatePassword string
  | Delete string
  | Promote string string string string
  | PromoteBulk PromoteBulkDto "string option"
  | ReAdmit string string string string
  | ReAdmitBulk "string list" string string string

fun exec :: "store \<Rightarrow> call \<Rightarrow> store" where
  "exec st (Create newId currentYear dto) = snd (create st newId currentYear dto)"
| "exec st (Update i dto) = snd (update st i dto)"
| "exec st (UpdateDocuments i) = snd (updateDocuments st i)"
| "exec st (UpdatePassword i) = snd (updatePassword st i)"
| "exec st (Delete i) = snd (delete st i)"
| "exec st (Promote i c x ay) = snd (promote st i c x ay)"
| "exec st (PromoteBulk dto headerAY) = snd (promoteBulk st dto headerAY)"
| "exec st (ReAdmit i c x ay) = snd (reAdmit st i c x ay)"
| "exec st (ReAdmitBulk ids c x ay) = snd (reAdmitBulk st ids c x ay)"

text \<open>
  The stores the service can reach: it starts without students and enrollments, the
  other services rewrite the catalogue of classes, sections and years at will, and every
  call of the students service leaves the store \<open>exec\<close> computes.
\<close>

inductive reachable :: "store \<Rightarrow> bool" where
  initial: "students st = [] \<Longrightarrow> enrollments st = [] \<Longrightarrow> reachable st"
| catalogue: "reachable st \<Longrightarrow> reachable (st\<lparr>classes := cs, sections := xs, years := ys\<rparr>)"
| call: "reachable st \<Longrightarrow> reachable (exec st c)"

subsection \<open>Keys of the ledger's unique indexes\<close>

definition rollKey :: "Enrollment \<Rightarrow> string \<times> string" where
  "rollKey e = (enr_academicYearId e, enr_rollNumber e)"

definition studentKey :: "Enrollment \<Rightarrow> string \<times> string" where
  "studentKey e = (enr_studentId e, enr_academicYearId e)"

definition ledgerUnique :: "Enrollment list \<Rightarrow> bool" where
  "ledgerUnique l = (distinct (map rollKey l) \<and> distinct (map studentKey l))"

subsection \<open>Example stores\<close>

text \<open>
  A small school: classes \<open>9\<close> and \<open>10\<close> with one section \<open>a\<close> each, the current
  year \<open>y1\<close> and its successor \<open>y2\<close>, two students of class \<open>9\<close>.
\<close>

definition storeA :: store where
  "storeA =
     \<lparr>students =
        [\<lparr>student_id = ''s1'', student_name = ''Asha'', email = ''asha@school.test'',
          uniqueId = ''STU-2025-0001'', rollNumber = ''9-A-001'', classId = ''c9'',
          sectionId = ''x9a'', academicYearId = ''y1''\<rparr>,
         \<lparr>student_id = ''s2'', student_name = ''Bo'', email = ''bo@school.test'',
          uniqueId = ''STU-2025-0002'', rollNumber = ''9-A-002'', classId = ''c9'',
          sectionId = ''x9a'', academicYearId = ''y1''\<rparr>],
      enrollments =
        [\<lparr>enr_studentId = ''s1'', enr_academicYearId = ''y1'', enr_classId = ''c9'',
          enr_sectionId = ''x9a'', enr_rollNumber = ''9-A-001''\<rparr>,
         \<lparr>enr_studentId = ''s2'', enr_academicYearId = ''y1'', enr_classId = ''c9'',
          enr_sectionId = ''x9a'', enr_rollNumber = ''9-A-002''\<rparr>],
      classes =
        [\<lparr>class_id = ''c9'', class_name = ''9'', class_order = Some 9\<rparr>,
         \<lparr>class_id = ''c10'', class_name = ''10'', class_order = Some 10\<rparr>],
      sections =
        [\<lparr>section_id = ''x9a'', section_name = ''a'', section_classId = ''c9''\<rparr>,
         \<lparr>section_id = ''x10a'', section_name = ''a'', section_classId = ''c10''\<rparr>],
      years =
        [\<lparr>year_id = ''y1'', year_name = ''2024-25'', label = None, year_order = Some 1,
          startDate = Some 1000, endDate = Some 2000, isActive = True, isCurrent = True\<rparr>,
         \<lparr>year_id = ''y2'', year_name = ''2025-26'', label = None, year_order = Some 2,
          startDate = Some 3000, endDate = Some 4000, isActive = True, isCurrent = False\<rparr>]\<rparr>"

definition emptyStore :: store where
  "emptyStore = storeA\<lparr>students := [], enrollments := []\<rparr>"

definition newStudent :: "string \<Rightarrow> string \<Rightarrow> CreateStudentDto" where
  "newStudent n e = \<lparr>new_name = n, new_email = e, new_classId = Some ''c10'',
     new_sectionId = Some ''x10a'', new_academicYearId = ''y1''\<rparr>"

definition twoCreated :: store where
  "twoCreated =
     exec (exec emptyStore (Create ''s1'' 2025 (newStudent ''Asha'' ''asha@school.test'')))
       (Create ''s2'' 2025 (newStudent ''Bo'' ''bo@school.test''))"

text \<open>
  The sequence rule in the words of the specification, with the text that is parsed as
  \<open>YYYY-YYYY\<close> left open: the rule accepts a source and a target year that differ, and
  then decides by the first piece of evidence both years carry: the numeric order, the
  parsed pair of calendar years, the date ranges.
\<close>

definition sequenceRule :: "(AcademicYear \<Rightarrow> string) \<Rightarrow> AcademicYear \<Rightarrow> AcademicYear \<Rightarrow> bool" where
  "sequenceRule text src tgt =
     (year_id src \<noteq> year_id tgt \<and>
      (case (year_order src, year_order tgt) of
         (Some a, Some b) \<Rightarrow> b = a + 1
       | _ \<Rightarrow>
           (case (parseYears (text src), parseYears (text tgt)) of
              (Some p, Some q) \<Rightarrow> fst q = fst p + 1 \<and> snd q = snd p + 1
            | _ \<Rightarrow>
                (case (endDate src, startDate tgt) of
                   (Some e, Some b) \<Rightarrow> b > e
                 | _ \<Rightarrow> False))))"

definition labelText :: "AcademicYear \<Rightarrow> string" where
  "labelText y = (case label y of None \<Rightarrow> [] | Some l \<Rightarrow> l)"

text \<open>
  The current year in the words of the specification: the flagged record or, when none
  is flagged, the active record with the latest start date (the first one of them in
  natural order; a record without a start date compares as equal to every other).
\<close>

fun latestStarted :: "AcademicYear list \<Rightarrow> AcademicYear option" where
  "latestStarted [] = None"
| "latestStarted (a # ys) =
     (case latestStarted ys of
        None \<Rightarrow> Some a
      | Some b \<Rightarrow>
          (case (startDate a, startDate b) of
             (Some da, Some db) \<Rightarrow> if db \<le> da then Some a else Some b
           | _ \<Rightarrow> Some a))"

definition resolveCurrent :: "AcademicYear list \<Rightarrow> AcademicYear option" where
  "resolveCurrent ys =
     (case find isCurrent ys of
        Some c \<Rightarrow> Some c
      | None \<Rightarrow> latestStarted (filter isActive ys))"

definition year2024 :: AcademicYear where
  "year2024 = \<lparr>year_id = ''ay2024'', year_name = ''2024-2025'', label = None,
     year_order = None, startDate = Some 1000, endDate = Some 2000, isActive = True,
     isCurrent = True\<rparr>"

definition year2026 :: AcademicYear where
  "year2026 = \<lparr>year_id = ''ay2026'', year_name = ''2026-2027'', label = None,
     year_order = None, startDate = Some 5000, endDate = Some 6000, isActive = True,
     isCurrent = False\<rparr>"

definition labelled :: "AcademicYear \<Rightarrow> AcademicYear" where
  "labelled y = y\<lparr>label := Some (year_name y)\<rparr>"

text \<open>The store \<open>storeA\<close> with no year flagged current and only \<open>y1\<close> active.\<close>

definition storeB :: store where
  "storeB = storeA\<lparr>years :=
     [\<lparr>year_id = ''y1'', year_name = ''2024-25'', label = None, year_order = Some 1,
       startDate = Some 1000, endDate = Some 2000, isActive = True, isCurrent = False\<rparr>,
      \<lparr>year_id = ''y2'', year_name = ''2025-26'', label = None, year_order = Some 2,
       startDate = Some 3000, endDate = Some 4000, isActive = False, isCurrent = False\<rparr>]\<rparr>"

text \<open>The store \<open>storeA\<close> with every year inactive and none flagged.\<close>

definition storeC :: store where
  "storeC = storeA\<lparr>years := map (\<lambda>y. y\<lparr>isActive := False, isCurrent := False\<rparr>) (years storeA)\<rparr>"

definition bulkDto :: "string \<Rightarrow> string \<Rightarrow> PromoteBulkDto" where
  "bulkDto fromAY toAY = \<lparr>fromClassId = ''c9'', fromSectionId = None,
     fromAcademicYearId = Some fromAY, toAcademicYearId = toAY, targetClassId = None,
     targetSectionId = None, studentIds = None\<rparr>"

definition promotedA :: store where
  "promotedA = snd (promote storeA ''s1'' ''c10'' ''x10a'' ''y2'')"

text \<open>What identifies a ledger entry: the student, the year and the roll number.\<close>

definition entryIdentity :: "Enrollment \<Rightarrow> string \<times> string \<times> string" where
  "entryIdentity e = (enr_studentId e, enr_academicYearId e, enr_rollNumber e)"

fun isUpdate :: "call \<Rightarrow> bool" where
  "isUpdate (Update i dto) = True"
| "isUpdate c = False"

definition moveToClass :: "string \<Rightarrow> UpdateStudentDto" where
  "moveToClass c = \<lparr>upd_name = None, upd_email = None, upd_rollNumber = None,
     upd_classId = Some c, upd_sectionId = None, upd_academicYearId = None\<rparr>"

text \<open>
  A source section has an equivalent in the target class when a section of that class
  carries the same name up to letter case.
\<close>

definition hasEquivalent :: "Section list \<Rightarrow> string \<Rightarrow> string \<Rightarrow> bool" where
  "hasEquivalent xs target sid =
     list_ex (\<lambda>src. section_id src = sid
                \<and> list_ex (\<lambda>t. section_classId t = target
                               \<and> toLowerCase (section_name t) = toLowerCase (section_name src)) xs)
       xs"

text \<open>
  The store \<open>storeA\<close> with a second section \<open>b\<close> of class \<open>9\<close>, which class \<open>10\<close> lacks, and
  student \<open>s2\<close> placed in it.
\<close>

definition storeS :: store where
  "storeS = storeA
     \<lparr>sections := sections storeA
        @ [\<lparr>section_id = ''x9b'', section_name = ''b'', section_classId = ''c9''\<rparr>],
      students := map (\<lambda>s. if student_id s = ''s2'' then s\<lparr>sectionId := ''x9b''\<rparr> else s)
                    (students storeA)\<rparr>"













text \<open>
  A store reached by four calls: two students are admitted to class \<open>9\<close> for year \<open>y1\<close>, a
  third one is admitted to class \<open>9\<close> for year \<open>y2\<close>, where the roll number \<open>9-A-001\<close> is
  free, and is deleted again; the enrollment stays in the ledger.
\<close>

definition admission :: "string \<Rightarrow> string \<Rightarrow> string \<Rightarrow> CreateStudentDto" where
  "admission n e ay = \<lparr>new_name = n, new_email = e, new_classId = Some ''c9'',
     new_sectionId = Some ''x9a'', new_academicYearId = ay\<rparr>"

definition storeD :: store where
  "storeD =
     exec (exec (exec (exec emptyStore
       (Create ''s1'' 2025 (admission ''Asha'' ''asha@school.test'' ''y1'')))
       (Create ''s2'' 2025 (admission ''Bo'' ''bo@school.test'' ''y1'')))
       (Create ''s0'' 2025 (admission ''Zed'' ''zed@school.test'' ''y2'')))
       (Delete ''s0'')"



section \<open>Properties\<close>

subsection \<open>The unique indexes hold in every reachable store\<close>

lemma createEnrollment_Inr:
  "createEnrollment l d = Inr l' \<Longrightarrow>
     l' = l @ [d] \<and> rollKey d \<notin> set (map rollKey l) \<and> studentKey d \<notin> set (map studentKey l)"
  by (auto simp: createEnrollment_def enrollmentDupKey_def list_ex_iff rollKey_def studentKey_def
      split: option.splits if_splits)


lemma createEnrollment_unique:
  "ledgerUnique l \<Longrightarrow> createEnrollment l d = Inr l' \<Longrightarrow> ledgerUnique l'"
  by (auto simp: ledgerUnique_def dest!: createEnrollment_Inr)

lemma insertManyUnordered_unique:
  "ledgerUnique l \<Longrightarrow> ledgerUnique (insertManyUnordered l ds)"
proof (induction ds arbitrary: l)
  case Nil
  then show ?case by simp
next
  case (Cons d ds)
  show ?case
  proof (cases "createEnrollment l d")
    case (Inl e)
    with Cons show ?thesis by simp
  next
    case (Inr l')
    with Cons createEnrollment_unique [OF Cons.prems Inr] show ?thesis by simp
  qed
qed

lemma setPlacement_rollKey: "map rollKey (setPlacement l sid ay c x) = map rollKey l"
  by (induction l) (auto simp: rollKey_def)

lemma setPlacement_studentKey: "map studentKey (setPlacement l sid ay c x) = map studentKey l"
  by (induction l) (auto simp: studentKey_def)

lemma setPlacement_unique: "ledgerUnique l \<Longrightarrow> ledgerUnique (setPlacement l sid ay c x)"
  by (simp add: ledgerUnique_def setPlacement_rollKey setPlacement_studentKey)

lemma reAdmitStep_unique:
  "ledgerUnique (enrollments (fst acc)) \<Longrightarrow>
     ledgerUnique (enrollments (fst (reAdmitStep c x ay cn sn s acc)))"
  by (cases acc)
     (auto simp: reAdmitStep_def Let_def split: option.splits sum.splits
       dest: createEnrollment_unique)

lemma reAdmitLoop_unique:
  "ledgerUnique (enrollments (fst acc)) \<Longrightarrow>
     ledgerUnique (enrollments (fst (reAdmitLoop c x ay cn sn todo acc)))"
proof (induction todo arbitrary: acc)
  case Nil
  then show ?case by simp
next
  case (Cons s todo)
  from Cons.IH [OF reAdmitStep_unique [OF Cons.prems]] show ?case by simp
qed

lemma promote_unique:
  "ledgerUnique (enrollments st) \<Longrightarrow> ledgerUnique (enrollments (snd (promote st i c x ay)))"
  by (auto simp: promote_def split: option.splits sum.splits dest: createEnrollment_unique)

lemma reAdmit_unique:
  "ledgerUnique (enrollments st) \<Longrightarrow> ledgerUnique (enrollments (snd (reAdmit st i c x ay)))"
  by (auto simp: reAdmit_def Let_def split: option.splits sum.splits dest: createEnrollment_unique)

lemma promoteBulk_unique:
  "ledgerUnique (enrollments st) \<Longrightarrow> ledgerUnique (enrollments (snd (promoteBulk st dto h)))"
  by (auto simp: promoteBulk_def Let_def split: option.splits sum.splits prod.splits
      intro: insertManyUnordered_unique)

lemma reAdmitBulk_unique:
  assumes "ledgerUnique (enrollments st)"
  shows "ledgerUnique (enrollments (snd (reAdmitBulk st ids c x ay)))"
proof -
  have "ledgerUnique (enrollments (fst (reAdmitLoop c x ay cn sn todo (st, 0, []))))" for cn sn todo
    using assms by (intro reAdmitLoop_unique) simp
  then show ?thesis
    using assms
    by (auto simp: reAdmitBulk_def Let_def split: option.splits prod.splits)
       (metis fst_conv)
qed

lemma create_ledger:
  "enrollments (snd (create st i y dto)) = enrollments st
   \<or> (\<exists>d. createEnrollment (enrollments st) d = Inr (enrollments (snd (create st i y dto))))"
proof (cases "list_ex (\<lambda>s. email s = normEmail (new_email dto)) (students st)")
  case True
  then show ?thesis by (simp add: create_def Let_def)
next
  case False
  then show ?thesis
    by (simp add: create_def Let_def split: sum.splits split del: if_split) blast
qed

lemma create_unique:
  "ledgerUnique (enrollments st) \<Longrightarrow> ledgerUnique (enrollments (snd (create st i y dto)))"
  using create_ledger [of st i y dto] by (auto dest: createEnrollment_unique)

lemma update_unique:
  "ledgerUnique (enrollments st) \<Longrightarrow> ledgerUnique (enrollments (snd (update st i dto)))"
  by (auto simp: update_def Let_def split: option.splits sum.splits if_splits
      intro: setPlacement_unique)

lemma exec_unique: "ledgerUnique (enrollments st) \<Longrightarrow> ledgerUnique (enrollments (exec st c))"
  by (cases c)
     (simp_all add: create_unique update_unique promote_unique promoteBulk_unique
        reAdmit_unique reAdmitBulk_unique updateDocuments_def updatePassword_def delete_def
        split: option.splits)

lemma reachable_unique: "reachable st \<Longrightarrow> ledgerUnique (enrollments st)"
  by (induction rule: reachable.induct) (simp_all add: exec_unique, simp add: ledgerUnique_def)

subsection \<open>Roll numbers\<close>

lemma greatest_Nil_iff: "greatest xs = None \<longleftrightarrow> xs = []"
  by (cases xs) (auto split: option.splits)

lemma rollPrefix_10_a: "rollPrefix ''10'' ''a'' = ''10-A-''"
  by code_simp

lemma latestRoll_none:
  "\<forall>e\<in>set ledger. enr_academicYearId e = ay \<longrightarrow> \<not> isPrefixOf p (enr_rollNumber e)
     \<Longrightarrow> latestRoll ledger ay p = None"
  by (auto simp: latestRoll_def greatest_Nil_iff filter_empty_conv)

lemma first_roll:
  assumes "\<forall>e\<in>set ledger. enr_academicYearId e = ay \<longrightarrow> \<not> isPrefixOf ''10-A-'' (enr_rollNumber e)"
  shows "generateRollNumber ledger ''10'' ''a'' ay = ''10-A-001''"
proof -
  have "latestRoll ledger ay ''10-A-'' = None" using assms by (rule latestRoll_none)
  moreover have "padStart 3 (CHR ''0'') (toDecimal 1) = ''001''" by code_simp
  ultimately show ?thesis
    by (simp add: generateRollNumber_def rollPrefix_10_a)
qed

lemma second_roll:
  assumes "\<forall>e\<in>set ledger. enr_academicYearId e = ay \<longrightarrow> \<not> isPrefixOf ''10-A-'' (enr_rollNumber e)"
    and "createEnrollment ledger doc = Inr ledger'"
    and "enr_academicYearId doc = ay" and "enr_rollNumber doc = ''10-A-001''"
  shows "generateRollNumber ledger' ''10'' ''a'' ay = ''10-A-002''"
proof -
  have l': "ledger' = ledger @ [doc]" using assms(2) by (auto dest: createEnrollment_Inr)
  have "filter (\<lambda>e. enr_academicYearId e = ay \<and> isPrefixOf ''10-A-'' (enr_rollNumber e)) ledger = []"
    using assms(1) by (auto simp: filter_empty_conv)
  moreover have "isPrefixOf ''10-A-'' ''10-A-001''" by code_simp
  ultimately have "latestRoll ledger' ay ''10-A-'' = Some ''10-A-001''"
    using assms(3,4) by (simp add: latestRoll_def l')
  moreover have "trailingDigits ''10-A-001'' = ''001''" by code_simp
  moreover have "padStart 3 (CHR ''0'') (toDecimal (parseInt ''001'' + 1)) = ''002''" by code_simp
  ultimately show ?thesis
    by (simp add: generateRollNumber_def rollPrefix_10_a)
qed

text \<open>
  Claim C8. For class \<open>10\<close> and section \<open>a\<close>, the first roll number generated in a year
  with no enrollment of that prefix is \<open>10-A-001\<close>; once an enrollment with that roll
  number is committed, the next one generated for the same class, section and year is
  \<open>10-A-002\<close>; and in every reachable store no two ledger entries of one year carry
  the same roll number.
\<close>

theorem roll_numbers:
  assumes "\<forall>e\<in>set ledger. enr_academicYearId e = ay \<longrightarrow> \<not> isPrefixOf ''10-A-'' (enr_rollNumber e)"
    and "createEnrollment ledger doc = Inr ledger'"
    and "enr_academicYearId doc = ay"
    and "enr_rollNumber doc = generateRollNumber ledger ''10'' ''a'' ay"
    and "reachable st"
  shows "generateRollNumber ledger ''10'' ''a'' ay = ''10-A-001''
       \<and> generateRollNumber ledger' ''10'' ''a'' ay = ''10-A-002''
       \<and> distinct (map (\<lambda>e. (enr_academicYearId e, enr_rollNumber e)) (enrollments st))"
proof -
  have one: "generateRollNumber ledger ''10'' ''a'' ay = ''10-A-001''"
    using assms(1) by (rule first_roll)
  have two: "generateRollNumber ledger' ''10'' ''a'' ay = ''10-A-002''"
    using assms(1,2,3) assms(4) [unfolded one] by (rule second_roll)
  have "ledgerUnique (enrollments st)" using assms(5) by (rule reachable_unique)
  then have "distinct (map (\<lambda>e. (enr_academicYearId e, enr_rollNumber e)) (enrollments st))"
    by (simp add: ledgerUnique_def rollKey_def [abs_def])
  with one two show ?thesis by simp
qed

lemma twoCreated_rolls: "map enr_rollNumber (enrollments twoCreated) = [''10-A-001'', ''10-A-002'']"
  by code_simp

theorem roll_numbers_witness:
  "generateRollNumber [] ''10'' ''a'' ''y1'' = ''10-A-001''
     \<and> generateRollNumber
          [\<lparr>enr_studentId = ''s1'', enr_academicYearId = ''y1'', enr_classId = ''c10'',
            enr_sectionId = ''x10a'', enr_rollNumber = ''10-A-001''\<rparr>] ''10'' ''a'' ''y1''
         = ''10-A-002''
     \<and> map enr_rollNumber (enrollments twoCreated) = [''10-A-001'', ''10-A-002'']
     \<and> distinct (map (\<lambda>e. (enr_academicYearId e, enr_rollNumber e)) (enrollments twoCreated))"
proof -
  let ?doc = "\<lparr>enr_studentId = ''s1'', enr_academicYearId = ''y1'', enr_classId = ''c10'',
            enr_sectionId = ''x10a'', enr_rollNumber = ''10-A-001''\<rparr>"
  have h1: "\<forall>e\<in>set []. enr_academicYearId e = ''y1'' \<longrightarrow> \<not> isPrefixOf ''10-A-'' (enr_rollNumber e)"
    by simp
  have h2: "createEnrollment [] ?doc = Inr [?doc]"
    by (simp add: createEnrollment_def enrollmentDupKey_def)
  have h3: "enr_academicYearId ?doc = ''y1''" by simp
  have h4: "enr_rollNumber ?doc = generateRollNumber [] ''10'' ''a'' ''y1''" by code_simp
  have "reachable emptyStore"
    by (rule reachable.initial) (simp_all add: emptyStore_def)
  then have h5: "reachable twoCreated"
    unfolding twoCreated_def by (intro reachable.call)
  from roll_numbers [OF h1 h2 h3 h4 h5] twoCreated_rolls show ?thesis by simp
qed

subsection \<open>Single promotion and re-admission: what a successful call writes\<close>

lemma find_Some_id: "find (\<lambda>y. f y = i) ys = Some y \<Longrightarrow> f y = i"
  by (auto simp: find_Some_iff)

lemma findStudent_id: "findStudent ss i = Some s \<Longrightarrow> student_id s = i"
  unfolding findStudent_def by (rule find_Some_id)

lemma findStudent_map:
  "findStudent ss i = Some s \<Longrightarrow> student_id t = i \<Longrightarrow>
     findStudent (map (\<lambda>x. if student_id x = i then t else x) ss) i = Some t"
  unfolding findStudent_def by (induction ss) (auto split: if_splits)

lemma updateStudent_find:
  assumes "findStudent ss i = Some s" and "updateStudent ss i f = Inr ss'"
    and "student_id (f s) = i"
  shows "findStudent ss' i = Some (f s)"
  using assms findStudent_map [OF assms(1), of "f s"]
  by (auto simp: updateStudent_def split: option.splits)

lemma assertIsCurrent_cases:
  "assertIsCurrentAcademicYear ys y = Inr ()
     \<or> assertIsCurrentAcademicYear ys y = Inl (BadRequestException msgNotCurrent)
     \<or> assertIsCurrentAcademicYear ys y = Inl (BadRequestException msgNoCurrent)"
  by (auto simp: assertIsCurrentAcademicYear_def split: option.splits list.splits)

lemma assertNext_cases:
  "assertNextAcademicYear ys a b = Inr () \<or> (\<exists>m. assertNextAcademicYear ys a b = Inl (BadRequestException m))"
  by (auto simp: assertNextAcademicYear_def getAcademicYearById_def
      split: option.splits sum.splits prod.splits)

lemma promote_ok:
  assumes "fst (promote st sid c x ay) = Inr s'"
  shows "\<exists>s. findStudent (students st) sid = Some s
           \<and> assertIsCurrentAcademicYear (years st) (academicYearId s) = Inr ()
           \<and> assertNextAcademicYear (years st) (academicYearId s) ay = Inr ()
           \<and> findEnrollment (enrollments st) sid ay = None
           \<and> s' = s\<lparr>classId := c, sectionId := x, academicYearId := ay\<rparr>
           \<and> enrollments (snd (promote st sid c x ay))
               = enrollments st
                 @ [\<lparr>enr_studentId = sid, enr_academicYearId = ay, enr_classId = c,
                     enr_sectionId = x, enr_rollNumber = rollNumber s\<rparr>]
           \<and> findStudent (students (snd (promote st sid c x ay))) sid = Some s'"
proof -
  from assms obtain s where s: "findStudent (students st) sid = Some s"
    by (auto simp: promote_def split: option.splits)
  let ?f = "\<lambda>s. s\<lparr>classId := c, sectionId := x, academicYearId := ay\<rparr>"
  have id: "student_id (?f s) = sid" using findStudent_id [OF s] by simp
  from assms s obtain ss where ss: "updateStudent (students st) sid ?f = Inr ss"
    by (auto simp: promote_def split: option.splits sum.splits)
  have "findStudent ss sid = Some (?f s)" using updateStudent_find [OF s ss id] .
  with assms s ss show ?thesis
    by (auto simp: promote_def split: option.splits sum.splits dest!: createEnrollment_Inr)
qed

lemma reAdmit_ok:
  assumes "fst (reAdmit st sid c x ay) = Inr s'"
  shows "\<exists>s classDoc sectionDoc. findStudent (students st) sid = Some s
           \<and> findClass (classes st) c = Some classDoc
           \<and> findSection (sections st) x = Some sectionDoc
           \<and> findEnrollment (enrollments st) sid ay = None
           \<and> s' = s\<lparr>classId := c, sectionId := x, academicYearId := ay,
                     rollNumber := generateRollNumber (enrollments st) (class_name classDoc)
                                     (section_name sectionDoc) ay\<rparr>
           \<and> enrollments (snd (reAdmit st sid c x ay))
               = enrollments st
                 @ [\<lparr>enr_studentId = sid, enr_academicYearId = ay, enr_classId = c,
                     enr_sectionId = x,
                     enr_rollNumber = generateRollNumber (enrollments st) (class_name classDoc)
                                        (section_name sectionDoc) ay\<rparr>]
           \<and> findStudent (students (snd (reAdmit st sid c x ay))) sid = Some s'"
proof -
  from assms obtain s classDoc sectionDoc where s: "findStudent (students st) sid = Some s"
    and cd: "findClass (classes st) c = Some classDoc"
    and sd: "findSection (sections st) x = Some sectionDoc"
    by (auto simp: reAdmit_def split: option.splits)
  let ?roll = "generateRollNumber (enrollments st) (class_name classDoc) (section_name sectionDoc) ay"
  let ?f = "\<lambda>s. s\<lparr>classId := c, sectionId := x, academicYearId := ay, rollNumber := ?roll\<rparr>"
  have id: "student_id (?f s) = sid" using findStudent_id [OF s] by simp
  from assms s cd sd obtain ss where ss: "updateStudent (students st) sid ?f = Inr ss"
    by (auto simp: reAdmit_def Let_def split: option.splits sum.splits)
  have "findStudent ss sid = Some (?f s)" using updateStudent_find [OF s ss id] .
  with assms s cd sd ss show ?thesis
    by (auto simp: reAdmit_def Let_def split: option.splits sum.splits dest!: createEnrollment_Inr)
qed

text \<open>
  Claim C9. A successful single promotion appends one ledger entry that carries the roll
  number the student had before the call, and the snapshot keeps that roll number; a
  successful re-admission appends one ledger entry whose roll number is the one
  \<open>generateRollNumber\<close> computes for the target class, section and year, and writes the
  same roll number into the snapshot.
\<close>

theorem roll_carried_or_fresh:
  "(fst (promote st sid c x ay) = Inr s' \<longrightarrow>
      (\<exists>s. findStudent (students st) sid = Some s
          \<and> enrollments (snd (promote st sid c x ay))
              = enrollments st
                @ [\<lparr>enr_studentId = sid, enr_academicYearId = ay, enr_classId = c,
                    enr_sectionId = x, enr_rollNumber = rollNumber s\<rparr>]
          \<and> findStudent (students (snd (promote st sid c x ay))) sid = Some s'
          \<and> rollNumber s' = rollNumber s))
   \<and> (fst (reAdmit st sid c x ay) = Inr s' \<longrightarrow>
      (\<exists>classDoc sectionDoc.
            findClass (classes st) c = Some classDoc
          \<and> findSection (sections st) x = Some sectionDoc
          \<and> enrollments (snd (reAdmit st sid c x ay))
              = enrollments st
                @ [\<lparr>enr_studentId = sid, enr_academicYearId = ay, enr_classId = c,
                    enr_sectionId = x,
                    enr_rollNumber = generateRollNumber (enrollments st) (class_name classDoc)
                                       (section_name sectionDoc) ay\<rparr>]
          \<and> findStudent (students (snd (reAdmit st sid c x ay))) sid = Some s'
          \<and> rollNumber s' = generateRollNumber (enrollments st) (class_name classDoc)
                               (section_name sectionDoc) ay))"
proof (intro conjI impI)
  assume "fst (promote st sid c x ay) = Inr s'"
  from promote_ok [OF this] show "\<exists>s. findStudent (students st) sid = Some s
          \<and> enrollments (snd (promote st sid c x ay))
              = enrollments st
                @ [\<lparr>enr_studentId = sid, enr_academicYearId = ay, enr_classId = c,
                    enr_sectionId = x, enr_rollNumber = rollNumber s\<rparr>]
          \<and> findStudent (students (snd (promote st sid c x ay))) sid = Some s'
          \<and> rollNumber s' = rollNumber s"
    by auto
next
  assume "fst (reAdmit st sid c x ay) = Inr s'"
  from reAdmit_ok [OF this] show "\<exists>classDoc sectionDoc.
            findClass (classes st) c = Some classDoc
          \<and> findSection (sections st) x = Some sectionDoc
          \<and> enrollments (snd (reAdmit st sid c x ay))
              = enrollments st
                @ [\<lparr>enr_studentId = sid, enr_academicYearId = ay, enr_classId = c,
                    enr_sectionId = x,
                    enr_rollNumber = generateRollNumber (enrollments st) (class_name classDoc)
                                       (section_name sectionDoc) ay\<rparr>]
          \<and> findStudent (students (snd (reAdmit st sid c x ay))) sid = Some s'
          \<and> rollNumber s' = generateRollNumber (enrollments st) (class_name classDoc)
                               (section_name sectionDoc) ay"
    by auto
qed

lemma storeA_promote:
  "fst (promote storeA ''s1'' ''c10'' ''x10a'' ''y2'')
     = Inr \<lparr>student_id = ''s1'', student_name = ''Asha'', email = ''asha@school.test'',
            uniqueId = ''STU-2025-0001'', rollNumber = ''9-A-001'', classId = ''c10'',
            sectionId = ''x10a'', academicYearId = ''y2''\<rparr>"
  by code_simp

lemma storeA_reAdmit:
  "fst (reAdmit storeA ''s2'' ''c10'' ''x10a'' ''y2'')
     = Inr \<lparr>student_id = ''s2'', student_name = ''Bo'', email = ''bo@school.test'',
            uniqueId = ''STU-2025-0002'', rollNumber = ''10-A-001'', classId = ''c10'',
            sectionId = ''x10a'', academicYearId = ''y2''\<rparr>"
  by code_simp

lemma storeA_finds:
  "findStudent (students storeA) ''s1'' = Some (hd (students storeA))"
  "findClass (classes storeA) ''c10''
     = Some \<lparr>class_id = ''c10'', class_name = ''10'', class_order = Some 10\<rparr>"
  "findSection (sections storeA) ''x10a''
     = Some \<lparr>section_id = ''x10a'', section_name = ''a'', section_classId = ''c10''\<rparr>"
  "generateRollNumber (enrollments storeA) ''10'' ''a'' ''y2'' = ''10-A-001''"
  "rollNumber (hd (students storeA)) = ''9-A-001''"
  by code_simp+

theorem roll_carried_or_fresh_witness:
  "enrollments (snd (promote storeA ''s1'' ''c10'' ''x10a'' ''y2''))
     = enrollments storeA
       @ [\<lparr>enr_studentId = ''s1'', enr_academicYearId = ''y2'', enr_classId = ''c10'',
           enr_sectionId = ''x10a'', enr_rollNumber = ''9-A-001''\<rparr>]
   \<and> enrollments (snd (reAdmit storeA ''s2'' ''c10'' ''x10a'' ''y2''))
     = enrollments storeA
       @ [\<lparr>enr_studentId = ''s2'', enr_academicYearId = ''y2'', enr_classId = ''c10'',
           enr_sectionId = ''x10a'', enr_rollNumber = ''10-A-001''\<rparr>]"
proof -
  have p: "enrollments (snd (promote storeA ''s1'' ''c10'' ''x10a'' ''y2''))
     = enrollments storeA
       @ [\<lparr>enr_studentId = ''s1'', enr_academicYearId = ''y2'', enr_classId = ''c10'',
           enr_sectionId = ''x10a'', enr_rollNumber = ''9-A-001''\<rparr>]"
    using roll_carried_or_fresh [of storeA "''s1''" "''c10''" "''x10a''" "''y2''"] storeA_promote
    by (auto simp: storeA_finds)
  have r: "enrollments (snd (reAdmit storeA ''s2'' ''c10'' ''x10a'' ''y2''))
     = enrollments storeA
       @ [\<lparr>enr_studentId = ''s2'', enr_academicYearId = ''y2'', enr_classId = ''c10'',
           enr_sectionId = ''x10a'', enr_rollNumber = ''10-A-001''\<rparr>]"
    using roll_carried_or_fresh [of storeA "''s2''" "''c10''" "''x10a''" "''y2''"] storeA_reAdmit
    by (auto simp: storeA_finds)
  from p r show ?thesis by simp
qed

subsection \<open>A student already enrolled for the target year\<close>

lemma promote_enrolled:
  assumes "findStudent (students st) sid = Some s"
    and "findEnrollment (enrollments st) sid ay = Some e"
  shows "\<exists>m. promote st sid c x ay = (Inl (BadRequestException m), st)"
  using assms assertIsCurrent_cases [of "years st" "academicYearId s"]
    assertNext_cases [of "years st" "academicYearId s" ay]
  by (auto simp: promote_def)

lemma reAdmit_enrolled:
  assumes "findStudent (students st) sid = Some s"
    and "findEnrollment (enrollments st) sid ay = Some e"
  shows "reAdmit st sid c x ay = (Inl (BadRequestException msgAlreadyEnrolled), st)"
  using assms by (simp add: reAdmit_def)

text \<open>
  Claim C4, as amended. When the ledger already holds an entry for student \<open>S\<close> and year
  \<open>Y2\<close>, a promotion or re-admission of \<open>S\<close> into \<open>Y2\<close> fails with a
  \<open>BadRequestException\<close>, the class every validation failure of the service has (the
  re-admission with the message "Student already has an enrollment for this academic
  year"), never with a \<open>ConflictException\<close>, and leaves the store as it was: no ledger
  entry is created and no snapshot field changes.
\<close>

theorem already_enrolled_rejected:
  assumes "findStudent (students st) sid = Some s"
    and "findEnrollment (enrollments st) sid ay = Some e"
  shows "reAdmit st sid c x ay = (Inl (BadRequestException msgAlreadyEnrolled), st)
       \<and> (\<exists>m. promote st sid c x ay = (Inl (BadRequestException m), st))
       \<and> \<not> isConflict (fst (reAdmit st sid c x ay))
       \<and> \<not> isConflict (fst (promote st sid c x ay))"
proof -
  from promote_enrolled [OF assms] obtain m
    where m: "promote st sid c x ay = (Inl (BadRequestException m), st)" by blast
  from reAdmit_enrolled [OF assms] m show ?thesis by simp
qed

text \<open>The store after student \<open>s1\<close> of \<open>storeA\<close> was promoted into year \<open>y2\<close>.\<close>

lemma promotedA_facts:
  "findStudent (students promotedA) ''s1''
     = Some \<lparr>student_id = ''s1'', student_name = ''Asha'', email = ''asha@school.test'',
             uniqueId = ''STU-2025-0001'', rollNumber = ''9-A-001'', classId = ''c10'',
             sectionId = ''x10a'', academicYearId = ''y2''\<rparr>"
  "findEnrollment (enrollments promotedA) ''s1'' ''y2''
     = Some \<lparr>enr_studentId = ''s1'', enr_academicYearId = ''y2'', enr_classId = ''c10'',
             enr_sectionId = ''x10a'', enr_rollNumber = ''9-A-001''\<rparr>"
  by code_simp+

theorem already_enrolled_rejected_witness:
  "reAdmit promotedA ''s1'' ''c10'' ''x10a'' ''y2''
     = (Inl (BadRequestException msgAlreadyEnrolled), promotedA)
   \<and> (\<exists>m. promote promotedA ''s1'' ''c10'' ''x10a'' ''y2''
            = (Inl (BadRequestException m), promotedA))"
  using already_enrolled_rejected [OF promotedA_facts, of "''c10''" "''x10a''"] by simp

theorem conflict_class_counterexample:
  "fst (reAdmit promotedA ''s1'' ''c10'' ''x10a'' ''y2'')
     = Inl (BadRequestException ''Student already has an enrollment for this academic year'')
   \<and> \<not> isConflict (fst (reAdmit promotedA ''s1'' ''c10'' ''x10a'' ''y2''))
   \<and> fst (promote promotedA ''s1'' ''c10'' ''x10a'' ''y2'')
     = Inl (BadRequestException ''Promotion is only allowed from the current academic year. Please select the current academic year in the topbar.'')
   \<and> \<not> isConflict (fst (promote promotedA ''s1'' ''c10'' ''x10a'' ''y2''))"
  by code_simp

subsection \<open>Bulk promotion without candidates\<close>

lemma promoteBulk_no_candidates:
  assumes "truthy (sourceYear dto headerAY)"
    and "assertIsCurrentAcademicYear (years st) (the (sourceYear dto headerAY)) = Inr ()"
    and "candidates (students st) dto (the (sourceYear dto headerAY)) = []"
  shows "promoteBulk st dto headerAY
           = (Inr \<lparr>selected = selectedCount dto, matched = 0, modified = 0,
                   res_toAcademicYearId = None, res_targetClassId = None,
                   res_targetSectionId = None\<rparr>, st)"
  using assms by (simp add: promoteBulk_def Let_def)

text \<open>
  Claim C10, as amended. A bulk promotion whose source year passes the current-year gate
  and whose candidate filter matches no student returns
  \<open>{selected, matched: 0, modified: 0}\<close> and leaves the store as it was, whatever target
  year, target class and target section the request names: the sequence validation, the
  class and section resolution and the writes are never reached. (The gate on the source
  year runs before the filter; a source year that is not the current one fails the call
  even when no student matches.)
\<close>

theorem promoteBulk_empty_selection:
  assumes "truthy (sourceYear dto headerAY)"
    and "assertIsCurrentAcademicYear (years st) (the (sourceYear dto headerAY)) = Inr ()"
    and "candidates (students st) dto (the (sourceYear dto headerAY)) = []"
  shows "promoteBulk st
           (dto\<lparr>toAcademicYearId := toAY, targetClassId := tc, targetSectionId := ts\<rparr>)
           headerAY
         = (Inr \<lparr>selected = selectedCount dto, matched = 0, modified = 0,
                 res_toAcademicYearId = None, res_targetClassId = None,
                 res_targetSectionId = None\<rparr>, st)"
proof -
  let ?dto = "dto\<lparr>toAcademicYearId := toAY, targetClassId := tc, targetSectionId := ts\<rparr>"
  have "sourceYear ?dto headerAY = sourceYear dto headerAY"
    by (simp add: sourceYear_def)
  moreover have "candidates (students st) ?dto = candidates (students st) dto"
    by (simp add: candidates_def fun_eq_iff)
  moreover have "selectedCount ?dto = selectedCount dto"
    by (simp add: selectedCount_def)
  ultimately show ?thesis
    using promoteBulk_no_candidates [of ?dto headerAY st] assms by simp
qed

lemma storeA_class10_empty:
  "truthy (sourceYear (bulkDto ''y1'' ''y1'' \<lparr>fromClassId := ''c10''\<rparr>) None)"
  "assertIsCurrentAcademicYear (years storeA)
     (the (sourceYear (bulkDto ''y1'' ''y1'' \<lparr>fromClassId := ''c10''\<rparr>) None)) = Inr ()"
  "candidates (students storeA) (bulkDto ''y1'' ''y1'' \<lparr>fromClassId := ''c10''\<rparr>)
     (the (sourceYear (bulkDto ''y1'' ''y1'' \<lparr>fromClassId := ''c10''\<rparr>) None)) = []"
  by code_simp+

theorem promoteBulk_empty_selection_witness:
  "promoteBulk storeA
     (bulkDto ''y1'' ''y1''
        \<lparr>fromClassId := ''c10'', toAcademicYearId := ''y1'', targetClassId := None,
         targetSectionId := None\<rparr>) None
     = (Inr \<lparr>selected = 0, matched = 0, modified = 0, res_toAcademicYearId = None,
             res_targetClassId = None, res_targetSectionId = None\<rparr>, storeA)
   \<and> promoteBulk storeA
     (bulkDto ''y1'' ''y1''
        \<lparr>fromClassId := ''c10'', toAcademicYearId := ''no-such-year'', targetClassId := None,
         targetSectionId := None\<rparr>) None
     = (Inr \<lparr>selected = 0, matched = 0, modified = 0, res_toAcademicYearId = None,
             res_targetClassId = None, res_targetSectionId = None\<rparr>, storeA)"
proof -
  have sel: "selectedCount (bulkDto ''y1'' ''y1'' \<lparr>fromClassId := ''c10''\<rparr>) = 0"
    by code_simp
  show ?thesis
    using promoteBulk_empty_selection [OF storeA_class10_empty, where toAY = "''y1''" and tc = None and ts = None]
      promoteBulk_empty_selection [OF storeA_class10_empty, where toAY = "''no-such-year''" and tc = None and ts = None]
    by (simp add: sel)
qed

theorem promoteBulk_gate_counterexample:
  "candidates (students storeA) (bulkDto ''y2'' ''y1'' \<lparr>fromClassId := ''c10''\<rparr>) ''y2'' = []
   \<and> fst (promoteBulk storeA (bulkDto ''y2'' ''y1'' \<lparr>fromClassId := ''c10''\<rparr>) None)
     = Inl (BadRequestException ''Promotion is only allowed from the current academic year. Please select the current academic year in the topbar.'')"
  by code_simp

subsection \<open>The sequence validator\<close>

lemma getAcademicYearById_id: "getAcademicYearById ys i = Inr y \<Longrightarrow> year_id y = i"
  by (auto simp: getAcademicYearById_def split: option.splits dest: find_Some_id)

text \<open>
  Claim C2, as amended. For a source and a target year that both exist, the sequence
  validator accepts exactly when the sequence rule does, read on the \<open>label\<close> field of the
  stored records (not on their \<open>name\<close>): the two years differ; then, when both carry a
  numeric order, the target's order is the source's plus one; else, when both labels parse
  as \<open>YYYY-YYYY\<close>, both components grow by one; else, when the source has an end date and
  the target a start date, the target starts after the source ends. Every rejection is a
  \<open>BadRequestException\<close>.
\<close>

theorem sequence_validator_precedence:
  assumes "getAcademicYearById ys fromId = Inr src"
    and "getAcademicYearById ys toId = Inr tgt"
  shows "(assertNextAcademicYear ys fromId toId = Inr () \<longleftrightarrow> sequenceRule labelText src tgt)
       \<and> (\<not> sequenceRule labelText src tgt \<longrightarrow>
            isBadRequest (assertNextAcademicYear ys fromId toId))"
proof -
  have ids: "year_id src = fromId" "year_id tgt = toId"
    using assms by (auto dest: getAcademicYearById_id)
  show ?thesis
    using ids
    by (cases "year_order src"; cases "year_order tgt"; cases "parseYears (labelText src)";
        cases "parseYears (labelText tgt)"; cases "endDate src"; cases "startDate tgt")
       (simp_all add: assertNextAcademicYear_def assms sequenceRule_def labelText_def
          parseAYLabel_def)
qed

lemma labelled_years:
  "getAcademicYearById [labelled year2024, labelled year2026] ''ay2024'' = Inr (labelled year2024)"
  "getAcademicYearById [labelled year2024, labelled year2026] ''ay2026'' = Inr (labelled year2026)"
  by code_simp+

theorem sequence_validator_precedence_witness:
  "\<not> sequenceRule labelText (labelled year2024) (labelled year2026)
   \<and> assertNextAcademicYear [labelled year2024, labelled year2026] ''ay2024'' ''ay2026''
       = Inl (BadRequestException ''Target academic year must be the immediate next year.'')
   \<and> isBadRequest
       (assertNextAcademicYear [labelled year2024, labelled year2026] ''ay2024'' ''ay2026'')"
proof -
  have r: "assertNextAcademicYear [labelled year2024, labelled year2026] ''ay2024'' ''ay2026''
       = Inl (BadRequestException ''Target academic year must be the immediate next year.'')"
    by code_simp
  with sequence_validator_precedence [OF labelled_years] show ?thesis by auto
qed

theorem sequence_by_name_counterexample:
  "parseYears (year_name year2024) = Some (2024, 2025)
   \<and> parseYears (year_name year2026) = Some (2026, 2027)
   \<and> \<not> sequenceRule year_name year2024 year2026
   \<and> assertNextAcademicYear [year2024, year2026] ''ay2024'' ''ay2026'' = Inr ()"
  by code_simp

subsection \<open>The current-year gate\<close>

lemma insertYear_hd:
  "insertYear a bs = (case bs of [] \<Rightarrow> [a] | b # r \<Rightarrow>
      if compareStart a b \<le> 0 then a # b # r else b # insertYear a r)"
  by (cases bs) auto

lemma sortYears_latest:
  "(case sortYears ys of [] \<Rightarrow> None | c # r \<Rightarrow> Some c) = latestStarted ys"
proof (induction ys)
  case Nil
  show ?case by (simp add: sortYears_def)
next
  case (Cons a ys)
  have s: "sortYears (a # ys) = insertYear a (sortYears ys)" by (simp add: sortYears_def)
  show ?case
  proof (cases "sortYears ys")
    case Nil
    with Cons s show ?thesis by simp
  next
    case (Cons b r)
    with Cons.IH have l: "latestStarted ys = Some b" by simp
    show ?thesis
      unfolding s Cons using l
      by (auto simp: compareStart_def split: option.splits)
  qed
qed

lemma gate_resolution:
  "assertIsCurrentAcademicYear ys y = Inr ()
     \<longleftrightarrow> (\<exists>c. resolveCurrent ys = Some c \<and> year_id c = y)"
proof -
  have "latestStarted (filter isActive ys)
          = (case sortYears (filter isActive ys) of [] \<Rightarrow> None | c # r \<Rightarrow> Some c)"
    by (rule sortYears_latest [symmetric])
  then show ?thesis
    by (auto simp: assertIsCurrentAcademicYear_def resolveCurrent_def
        split: option.splits list.splits)
qed

lemma latestStarted_None_iff: "latestStarted ys = None \<longleftrightarrow> ys = []"
  by (cases ys) (auto split: option.splits if_splits)

lemma latestStarted_mem: "latestStarted ys = Some c \<Longrightarrow> c \<in> set ys"
  by (induction ys arbitrary: c) (auto split: option.splits if_splits)

lemma latestStarted_max:
  assumes "\<forall>y\<in>set ys. startDate y \<noteq> None" and "latestStarted ys = Some c"
  shows "\<forall>y\<in>set ys. the (startDate y) \<le> the (startDate c)"
  using assms
proof (induction ys arbitrary: c)
  case Nil
  then show ?case by simp
next
  case (Cons a ys)
  show ?case
  proof (cases "latestStarted ys")
    case None
    then have "ys = []" by (simp add: latestStarted_None_iff)
    with Cons.prems show ?thesis by simp
  next
    case (Some b)
    from Cons.prems(1) have all: "\<forall>y\<in>set ys. startDate y \<noteq> None" by simp
    from Cons.IH [OF all Some] have le: "\<forall>y\<in>set ys. the (startDate y) \<le> the (startDate b)" .
    from latestStarted_mem [OF Some] all obtain db where db: "startDate b = Some db" by auto
    from Cons.prems(1) obtain da where da: "startDate a = Some da" by auto
    show ?thesis
      using Cons.prems(2) Some le da db by (auto split: if_splits)
  qed
qed

lemma resolveCurrent_none:
  assumes "\<forall>y\<in>set ys. \<not> isCurrent y" and "\<forall>y\<in>set ys. \<not> isActive y"
  shows "resolveCurrent ys = None"
proof -
  have "find isCurrent ys = None" using assms(1) by (simp add: find_None_iff)
  moreover have "filter isActive ys = []" using assms(2) by (simp add: filter_empty_conv)
  ultimately show ?thesis by (simp add: resolveCurrent_def)
qed

lemma promote_gate:
  assumes "findStudent (students st) sid = Some s"
    and "\<not> (\<exists>c. resolveCurrent (years st) = Some c \<and> year_id c = academicYearId s)"
  shows "\<exists>m. promote st sid c x ay = (Inl (BadRequestException m), st)"
  using assms assertIsCurrent_cases [of "years st" "academicYearId s"]
    gate_resolution [of "years st" "academicYearId s"]
  by (auto simp: promote_def)

text \<open>
  Claim C3, as amended. The current year is resolved as the flagged record or, when none
  is flagged, as the active record with the latest start date. A single promotion of a
  student whose snapshot year \<open>Y\<close> is not that resolved year fails with a
  \<open>BadRequestException\<close> and writes nothing, whatever the target year is; this is the
  case in particular when \<open>Y\<close> is not flagged and no year at all, \<open>Y\<close> included, is
  active. (An unflagged \<open>Y\<close> that is itself the latest-started active year, with no year
  flagged, is the resolved current year and passes the gate.)
\<close>

theorem promote_current_year_gate:
  assumes "findStudent (students st) sid = Some s"
  shows "(\<not> (\<exists>c. resolveCurrent (years st) = Some c \<and> year_id c = academicYearId s) \<longrightarrow>
            (\<exists>m. promote st sid c x ay = (Inl (BadRequestException m), st)))
       \<and> ((\<forall>y\<in>set (years st). year_id y = academicYearId s \<longrightarrow> \<not> isCurrent y)
            \<and> (\<forall>y\<in>set (years st). \<not> isActive y) \<longrightarrow>
            (\<exists>m. promote st sid c x ay = (Inl (BadRequestException m), st)))
       \<and> (\<forall>cur. resolveCurrent (years st) = Some cur \<longrightarrow>
            cur \<in> set (years st)
            \<and> (isCurrent cur
                \<or> (\<forall>y\<in>set (years st). \<not> isCurrent y) \<and> isActive cur
                  \<and> ((\<forall>y\<in>set (years st). isActive y \<longrightarrow> startDate y \<noteq> None) \<longrightarrow>
                       (\<forall>y\<in>set (years st). isActive y \<longrightarrow>
                          the (startDate y) \<le> the (startDate cur)))))"
proof -
  have gate: "\<not> (\<exists>c. resolveCurrent (years st) = Some c \<and> year_id c = academicYearId s) \<longrightarrow>
            (\<exists>m. promote st sid c x ay = (Inl (BadRequestException m), st))"
    using promote_gate [OF assms] by blast
  have idle: "(\<forall>y\<in>set (years st). year_id y = academicYearId s \<longrightarrow> \<not> isCurrent y)
            \<and> (\<forall>y\<in>set (years st). \<not> isActive y) \<longrightarrow>
            (\<exists>m. promote st sid c x ay = (Inl (BadRequestException m), st))"
  proof
    assume h: "(\<forall>y\<in>set (years st). year_id y = academicYearId s \<longrightarrow> \<not> isCurrent y)
            \<and> (\<forall>y\<in>set (years st). \<not> isActive y)"
    have "\<not> (\<exists>c. resolveCurrent (years st) = Some c \<and> year_id c = academicYearId s)"
    proof (cases "find isCurrent (years st)")
      case None
      then have "\<forall>y\<in>set (years st). \<not> isCurrent y" by (simp add: find_None_iff)
      with h have "resolveCurrent (years st) = None" by (intro resolveCurrent_none) auto
      then show ?thesis by simp
    next
      case (Some z)
      then have "z \<in> set (years st)" "isCurrent z" by (auto simp: find_Some_iff)
      with h have "year_id z \<noteq> academicYearId s" by auto
      with Some show ?thesis by (simp add: resolveCurrent_def)
    qed
    with gate show "\<exists>m. promote st sid c x ay = (Inl (BadRequestException m), st)" by blast
  qed
  have res: "\<forall>cur. resolveCurrent (years st) = Some cur \<longrightarrow>
            cur \<in> set (years st)
            \<and> (isCurrent cur
                \<or> (\<forall>y\<in>set (years st). \<not> isCurrent y) \<and> isActive cur
                  \<and> ((\<forall>y\<in>set (years st). isActive y \<longrightarrow> startDate y \<noteq> None) \<longrightarrow>
                       (\<forall>y\<in>set (years st). isActive y \<longrightarrow>
                          the (startDate y) \<le> the (startDate cur))))"
  proof (intro allI impI)
    fix cur assume r: "resolveCurrent (years st) = Some cur"
    show "cur \<in> set (years st)
            \<and> (isCurrent cur
                \<or> (\<forall>y\<in>set (years st). \<not> isCurrent y) \<and> isActive cur
                  \<and> ((\<forall>y\<in>set (years st). isActive y \<longrightarrow> startDate y \<noteq> None) \<longrightarrow>
                       (\<forall>y\<in>set (years st). isActive y \<longrightarrow>
                          the (startDate y) \<le> the (startDate cur))))"
    proof (cases "find isCurrent (years st)")
      case (Some z)
      with r show ?thesis by (auto simp: resolveCurrent_def find_Some_iff)
    next
      case None
      then have nf: "\<forall>y\<in>set (years st). \<not> isCurrent y" by (simp add: find_None_iff)
      from r None have l: "latestStarted (filter isActive (years st)) = Some cur"
        by (simp add: resolveCurrent_def)
      from latestStarted_mem [OF l] have mem: "cur \<in> set (years st)" "isActive cur" by auto
      have "(\<forall>y\<in>set (years st). isActive y \<longrightarrow> startDate y \<noteq> None) \<longrightarrow>
              (\<forall>y\<in>set (years st). isActive y \<longrightarrow> the (startDate y) \<le> the (startDate cur))"
      proof
        assume "\<forall>y\<in>set (years st). isActive y \<longrightarrow> startDate y \<noteq> None"
        then have "\<forall>y\<in>set (filter isActive (years st)). startDate y \<noteq> None" by simp
        from latestStarted_max [OF this l]
        show "\<forall>y\<in>set (years st). isActive y \<longrightarrow> the (startDate y) \<le> the (startDate cur)"
          by simp
      qed
      with nf mem show ?thesis by blast
    qed
  qed
  from gate idle res show ?thesis by blast
qed

lemma storeC_facts:
  "findStudent (students storeC) ''s1'' = Some (hd (students storeC))"
  "resolveCurrent (years storeC) = None"
  "list_all (\<lambda>y. \<not> isActive y \<and> \<not> isCurrent y) (years storeC)"
  by code_simp+

lemma storeA_current:
  "resolveCurrent (years storeA) = Some (hd (years storeA))"
  by code_simp

theorem promote_current_year_gate_witness:
  "list_all (\<lambda>y. \<not> isActive y \<and> \<not> isCurrent y) (years storeC)
   \<and> (\<exists>m. promote storeC ''s1'' ''c10'' ''x10a'' ''y2'' = (Inl (BadRequestException m), storeC))
   \<and> hd (years storeA) \<in> set (years storeA)"
proof -
  have all: "\<forall>y\<in>set (years storeC). \<not> isActive y \<and> \<not> isCurrent y"
    using storeC_facts(3) by (simp add: list_all_iff)
  have sA: "findStudent (students storeA) ''s1'' = Some (hd (students storeA))"
    by (rule storeA_finds(1))
  from promote_current_year_gate [OF storeC_facts(1), of "''c10''" "''x10a''" "''y2''"] all
  have "\<exists>m. promote storeC ''s1'' ''c10'' ''x10a'' ''y2'' = (Inl (BadRequestException m), storeC)"
    by blast
  moreover from promote_current_year_gate [OF sA, of "''c10''" "''x10a''" "''y2''"] storeA_current
  have "hd (years storeA) \<in> set (years storeA)" by blast
  ultimately show ?thesis using storeC_facts(3) by blast
qed

theorem current_year_gate_counterexample:
  "map (\<lambda>y. (year_id y, isCurrent y, isActive y)) (years storeB)
     = [(''y1'', False, True), (''y2'', False, False)]
   \<and> academicYearId (hd (students storeB)) = ''y1''
   \<and> fst (promote storeB ''s1'' ''c10'' ''x10a'' ''y2'')
       = Inr \<lparr>student_id = ''s1'', student_name = ''Asha'', email = ''asha@school.test'',
              uniqueId = ''STU-2025-0001'', rollNumber = ''9-A-001'', classId = ''c10'',
              sectionId = ''x10a'', academicYearId = ''y2''\<rparr>"
  by code_simp

subsection \<open>The ledger under the writing operations\<close>

lemma insertManyUnordered_prefix: "prefix l (insertManyUnordered l ds)"
proof (induction ds arbitrary: l)
  case Nil
  show ?case by simp
next
  case (Cons d ds)
  show ?case
  proof (cases "createEnrollment l d")
    case (Inl e)
    with Cons [of l] show ?thesis by simp
  next
    case (Inr l')
    then have "l' = l @ [d]" by (auto dest: createEnrollment_Inr)
    with Cons [of "l @ [d]"] Inr show ?thesis by (auto dest: append_prefixD)
  qed
qed

lemma reAdmitStep_prefix:
  "prefix (enrollments (fst acc)) (enrollments (fst (reAdmitStep c x ay cn sn s acc)))"
  by (cases acc)
     (auto simp: reAdmitStep_def Let_def split: option.splits sum.splits
       dest!: createEnrollment_Inr)

lemma reAdmitLoop_prefix:
  "prefix (enrollments (fst acc)) (enrollments (fst (reAdmitLoop c x ay cn sn todo acc)))"
proof (induction todo arbitrary: acc)
  case Nil
  show ?case by simp
next
  case (Cons s todo)
  have "prefix (enrollments (fst acc)) (enrollments (fst (reAdmitStep c x ay cn sn s acc)))"
    by (rule reAdmitStep_prefix)
  also have "prefix \<dots>
      (enrollments (fst (reAdmitLoop c x ay cn sn todo (reAdmitStep c x ay cn sn s acc))))"
    by (rule Cons)
  finally show ?case by simp
qed

lemma promote_prefix: "prefix (enrollments st) (enrollments (snd (promote st i c x ay)))"
  by (auto simp: promote_def split: option.splits sum.splits dest!: createEnrollment_Inr)

lemma reAdmit_prefix: "prefix (enrollments st) (enrollments (snd (reAdmit st i c x ay)))"
  by (auto simp: reAdmit_def Let_def split: option.splits sum.splits dest!: createEnrollment_Inr)

lemma promoteBulk_prefix: "prefix (enrollments st) (enrollments (snd (promoteBulk st dto h)))"
  by (auto simp: promoteBulk_def Let_def insertManyUnordered_prefix
      split: option.splits sum.splits prod.splits)

lemma reAdmitBulk_prefix: "prefix (enrollments st) (enrollments (snd (reAdmitBulk st ids c x ay)))"
proof -
  have "prefix (enrollments st)
          (enrollments (fst (reAdmitLoop c x ay cn sn todo (st, 0, []))))" for cn sn todo
    using reAdmitLoop_prefix [of "(st, 0, [])"] by simp
  then show ?thesis
    by (auto simp: reAdmitBulk_def Let_def split: option.splits prod.splits)
       (metis fst_conv)
qed

lemma create_prefix: "prefix (enrollments st) (enrollments (snd (create st i y dto)))"
  using create_ledger [of st i y dto] by (auto dest!: createEnrollment_Inr)

lemma setPlacement_identity: "map entryIdentity (setPlacement l sid ay c x) = map entryIdentity l"
  by (induction l) (auto simp: entryIdentity_def)

lemma update_identity:
  "map entryIdentity (enrollments (snd (update st i dto))) = map entryIdentity (enrollments st)"
  by (auto simp: update_def Let_def setPlacement_identity split: option.splits sum.splits if_splits)

lemma prefix_identity: "prefix l l' \<Longrightarrow> prefix (map entryIdentity l) (map entryIdentity l')"
  by (auto simp: prefix_def)

lemma exec_prefix: "isUpdate c \<or> prefix (enrollments st) (enrollments (exec st c))"
  by (cases c)
     (simp_all add: create_prefix promote_prefix promoteBulk_prefix reAdmit_prefix
        reAdmitBulk_prefix updateDocuments_def updatePassword_def delete_def
        split: option.splits)

text \<open>
  Claim C5, as amended. No operation of the service removes a ledger entry or changes the
  student, the academic year or the roll number of an existing one: after every call the
  old entries are still there, in their places, with these three fields unchanged. Every
  operation but the general update of a student also leaves their class and section
  alone (it only appends); the general update rewrites the class and section of the
  student's entry for the year of the snapshot when the request names a class or a
  section.
\<close>

theorem ledger_entries_keep_identity:
  "prefix (map entryIdentity (enrollments st)) (map entryIdentity (enrollments (exec st c)))
   \<and> (isUpdate c \<or> prefix (enrollments st) (enrollments (exec st c)))"
proof (cases "isUpdate c")
  case True
  then obtain i dto where "c = Update i dto" by (cases c) auto
  then show ?thesis by (simp add: update_identity)
next
  case False
  with exec_prefix [of c st] have "prefix (enrollments st) (enrollments (exec st c))" by simp
  then show ?thesis by (simp add: prefix_identity)
qed

theorem ledger_immutable_counterexample:
  "enrollments storeA
     = [\<lparr>enr_studentId = ''s1'', enr_academicYearId = ''y1'', enr_classId = ''c9'',
         enr_sectionId = ''x9a'', enr_rollNumber = ''9-A-001''\<rparr>,
        \<lparr>enr_studentId = ''s2'', enr_academicYearId = ''y1'', enr_classId = ''c9'',
         enr_sectionId = ''x9a'', enr_rollNumber = ''9-A-002''\<rparr>]
   \<and> enrollments (snd (update storeA ''s1'' (moveToClass ''c10'')))
     = [\<lparr>enr_studentId = ''s1'', enr_academicYearId = ''y1'', enr_classId = ''c10'',
         enr_sectionId = ''x9a'', enr_rollNumber = ''9-A-001''\<rparr>,
        \<lparr>enr_studentId = ''s2'', enr_academicYearId = ''y1'', enr_classId = ''c9'',
         enr_sectionId = ''x9a'', enr_rollNumber = ''9-A-002''\<rparr>]"
  by code_simp

subsection \<open>Bulk promotion with an unmapped section\<close>

lemma traverse_Inl:
  assumes "x \<in> set xs" and "f x = Inl e"
  shows "\<exists>u\<in>set xs. \<exists>e'. f u = Inl e' \<and> traverse f xs = Inl e'"
  using assms
proof (induction xs)
  case Nil
  then show ?case by simp
next
  case (Cons a xs)
  show ?case
  proof (cases "f a")
    case (Inl e')
    then show ?thesis by auto
  next
    case (Inr y)
    with Cons.prems have "x \<in> set xs" by auto
    from Cons.IH [OF this Cons.prems(2)] Inr show ?thesis by (auto split: sum.splits)
  qed
qed

lemma buildMapping_keys_aux:
  "fst ` set (foldl (\<lambda>m srcSection.
              case find (\<lambda>t. toLowerCase (section_name t) = toLowerCase (section_name srcSection))
                     tgt of
                None \<Rightarrow> m
              | Some matchingTarget \<Rightarrow> (section_id srcSection, section_id matchingTarget) # m)
       m0 src)
   = fst ` set m0 \<union> {section_id s | s. s \<in> set src
        \<and> (\<exists>t\<in>set tgt. toLowerCase (section_name t) = toLowerCase (section_name s))}"
proof (induction src arbitrary: m0)
  case Nil
  show ?case by simp
next
  case (Cons a src)
  show ?case
  proof (cases "find (\<lambda>t. toLowerCase (section_name t) = toLowerCase (section_name a)) tgt")
    case None
    then have "\<not> (\<exists>t\<in>set tgt. toLowerCase (section_name t) = toLowerCase (section_name a))"
      by (simp add: find_None_iff)
    with None Cons [of m0] show ?thesis by auto
  next
    case (Some t)
    then have "\<exists>t\<in>set tgt. toLowerCase (section_name t) = toLowerCase (section_name a)"
      by (auto simp: find_Some_iff)
    with Some Cons [of "(section_id a, section_id t) # m0"] show ?thesis by auto
  qed
qed

lemma buildMapping_values_aux:
  "snd ` set (foldl (\<lambda>m srcSection.
              case find (\<lambda>t. toLowerCase (section_name t) = toLowerCase (section_name srcSection))
                     tgt of
                None \<Rightarrow> m
              | Some matchingTarget \<Rightarrow> (section_id srcSection, section_id matchingTarget) # m)
       m0 src)
   \<subseteq> snd ` set m0 \<union> section_id ` set tgt"
proof (induction src arbitrary: m0)
  case Nil
  show ?case by simp
next
  case (Cons a src)
  show ?case
  proof (cases "find (\<lambda>t. toLowerCase (section_name t) = toLowerCase (section_name a)) tgt")
    case None
    with Cons [of m0] show ?thesis by simp
  next
    case (Some t)
    then have "t \<in> set tgt" by (auto simp: find_Some_iff)
    with Some Cons [of "(section_id a, section_id t) # m0"] show ?thesis by auto
  qed
qed

lemma buildMapping_None:
  "map_of (buildMapping src tgt) k = None
     \<longleftrightarrow> \<not> (\<exists>s\<in>set src. section_id s = k
            \<and> (\<exists>t\<in>set tgt. toLowerCase (section_name t) = toLowerCase (section_name s)))"
  unfolding map_of_eq_None_iff buildMapping_def buildMapping_keys_aux by auto

lemma buildMapping_Some:
  "map_of (buildMapping src tgt) k = Some v \<Longrightarrow> v \<in> section_id ` set tgt"
proof -
  assume "map_of (buildMapping src tgt) k = Some v"
  then have "(k, v) \<in> set (buildMapping src tgt)" by (rule map_of_SomeD)
  then have "v \<in> snd ` set (buildMapping src tgt)" by force
  with buildMapping_values_aux [of tgt "[]" src] show ?thesis
    by (auto simp: buildMapping_def)
qed

lemma getTargetSectionId_unmapped:
  assumes "\<not> truthy (targetSectionId dto)"
    and "u \<in> set cands" and "sectionId u \<noteq> []"
    and "\<forall>x\<in>set xs. section_id x \<noteq> []"
  shows "getTargetSectionId dto (sectionMapping xs dto target cands) (sectionId u)
           = (if hasEquivalent xs target (sectionId u)
              then getTargetSectionId dto (sectionMapping xs dto target cands) (sectionId u)
              else Inl (BadRequestException (msgNoMatch (sectionId u))))
       \<and> (hasEquivalent xs target (sectionId u) \<longrightarrow>
            (\<exists>v. getTargetSectionId dto (sectionMapping xs dto target cands) (sectionId u) = Inr v))"
proof -
  let ?ids = "remdups (filter (\<lambda>i. i \<noteq> []) (map sectionId cands))"
  let ?src = "filter (\<lambda>x. section_id x \<in> set ?ids) xs"
  let ?tgt = "filter (\<lambda>x. section_classId x = target) xs"
  have mem: "sectionId u \<in> set ?ids" using assms(2,3) by auto
  then have ne: "?ids \<noteq> []" by (metis empty_iff list.set(1))
  have m: "sectionMapping xs dto target cands = Some (buildMapping ?src ?tgt)"
    using assms(1) ne by (simp add: sectionMapping_def Let_def del: remdups_eq_nil_iff)
  have eq: "hasEquivalent xs target (sectionId u)
      \<longleftrightarrow> (\<exists>s\<in>set ?src. section_id s = sectionId u
            \<and> (\<exists>t\<in>set ?tgt. toLowerCase (section_name t) = toLowerCase (section_name s)))"
    using mem by (auto simp: hasEquivalent_def list_ex_iff)
  show ?thesis
  proof (cases "map_of (buildMapping ?src ?tgt) (sectionId u)")
    case None
    with eq have "\<not> hasEquivalent xs target (sectionId u)" by (simp add: buildMapping_None)
    with None m assms(1,3) show ?thesis by (simp add: getTargetSectionId_def)
  next
    case (Some v)
    from buildMapping_Some [OF Some] assms(4) have "v \<noteq> []" by auto
    moreover have "hasEquivalent xs target (sectionId u)"
    proof -
      from Some have "\<not> (map_of (buildMapping ?src ?tgt) (sectionId u) = None)" by simp
      then have "\<exists>s\<in>set ?src. section_id s = sectionId u
            \<and> (\<exists>t\<in>set ?tgt. toLowerCase (section_name t) = toLowerCase (section_name s))"
        unfolding buildMapping_None by blast
      with eq show ?thesis by blast
    qed
    ultimately show ?thesis using Some m assms(1,3) by (simp add: getTargetSectionId_def)
  qed
qed

text \<open>
  Claim C6. In a bulk promotion that names no target section and has come as far as the
  section resolution (the source year passed the current-year gate, the target year the
  sequence validation, and the target class is resolved), if some candidate's section has
  no section of the same case-insensitive name in the target class, the call fails with a
  \<open>BadRequestException\<close> whose message cites the section identifier of such a candidate
  (the first one in the order of the candidates), and the store is left as it was: no
  ledger entry is inserted and no snapshot is updated, for any student of the batch.
  Section identifiers are non-empty, as the identifiers the storage engine assigns are.
\<close>

theorem unmapped_section_aborts_batch:
  assumes "truthy (sourceYear dto headerAY)"
    and "assertIsCurrentAcademicYear (years st) (the (sourceYear dto headerAY)) = Inr ()"
    and "assertNextAcademicYear (years st) (the (sourceYear dto headerAY)) (toAcademicYearId dto)
           = Inr ()"
    and "resolveTargetClass (classes st) dto = Inr target"
    and "\<not> truthy (targetSectionId dto)"
    and "\<forall>x\<in>set (sections st). section_id x \<noteq> []"
    and "s \<in> set (candidates (students st) dto (the (sourceYear dto headerAY)))"
    and "sectionId s \<noteq> []"
    and "\<not> hasEquivalent (sections st) target (sectionId s)"
  shows "\<exists>u\<in>set (candidates (students st) dto (the (sourceYear dto headerAY))).
           sectionId u \<noteq> [] \<and> \<not> hasEquivalent (sections st) target (sectionId u)
           \<and> promoteBulk st dto headerAY
               = (Inl (BadRequestException (msgNoMatch (sectionId u))), st)"
proof -
  let ?fromAY = "the (sourceYear dto headerAY)"
  let ?cands = "candidates (students st) dto ?fromAY"
  let ?mapping = "sectionMapping (sections st) dto target ?cands"
  let ?f = "\<lambda>s. getTargetSectionId dto ?mapping (sectionId s)"
  have ne: "?cands \<noteq> []" using assms(7) by auto
  have fs: "?f s = Inl (BadRequestException (msgNoMatch (sectionId s)))"
    using getTargetSectionId_unmapped [OF assms(5) assms(7) assms(8) assms(6), of target] assms(9)
    by simp
  from traverse_Inl [of s ?cands ?f, OF assms(7) fs] obtain u e
    where u: "u \<in> set ?cands" and fu: "?f u = Inl e" and tr: "traverse ?f ?cands = Inl e"
    by blast
  have su: "sectionId u \<noteq> []"
    using fu assms(5) by (auto simp: getTargetSectionId_def split: option.splits)
  from getTargetSectionId_unmapped [OF assms(5) u su assms(6), of target] fu
  have nu: "\<not> hasEquivalent (sections st) target (sectionId u)"
    and e: "e = BadRequestException (msgNoMatch (sectionId u))"
    by (auto split: if_splits)
  have "promoteBulk st dto headerAY = (Inl e, st)"
    using assms(1-4) ne tr by (simp add: promoteBulk_def Let_def)
  with u su nu e show ?thesis by blast
qed

lemma storeS_facts:
  "truthy (sourceYear (bulkDto ''y1'' ''y2'') None)"
  "assertIsCurrentAcademicYear (years storeS) (the (sourceYear (bulkDto ''y1'' ''y2'') None)) = Inr ()"
  "assertNextAcademicYear (years storeS) (the (sourceYear (bulkDto ''y1'' ''y2'') None))
     (toAcademicYearId (bulkDto ''y1'' ''y2'')) = Inr ()"
  "resolveTargetClass (classes storeS) (bulkDto ''y1'' ''y2'') = Inr ''c10''"
  "\<not> truthy (targetSectionId (bulkDto ''y1'' ''y2''))"
  by code_simp+

lemma storeS_sections: "list_all (\<lambda>x. section_id x \<noteq> []) (sections storeS)"
  by code_simp

lemma storeS_candidates:
  "candidates (students storeS) (bulkDto ''y1'' ''y2'') (the (sourceYear (bulkDto ''y1'' ''y2'') None))
     = students storeS"
  "map sectionId (students storeS) = [''x9a'', ''x9b'']"
  "hasEquivalent (sections storeS) ''c10'' ''x9a''"
  "\<not> hasEquivalent (sections storeS) ''c10'' ''x9b''"
  by code_simp+

theorem unmapped_section_aborts_batch_witness:
  "promoteBulk storeS (bulkDto ''y1'' ''y2'') None
     = (Inl (BadRequestException
          ''No matching section found in target class for section ID: x9b. Please specify a target section.''),
        storeS)"
proof -
  let ?s2 = "students storeS ! 1"
  have sec: "\<forall>x\<in>set (sections storeS). section_id x \<noteq> []"
    using storeS_sections by (simp add: list_all_iff)
  have len: "length (students storeS) = 2" using storeS_candidates(2) [symmetric]
    by (metis length_map length_Cons list.size(3) One_nat_def Suc_1)
  have ids: "sectionId (students storeS ! 0) = ''x9a''" "sectionId (students storeS ! 1) = ''x9b''"
    using storeS_candidates(2) len by (metis nth_map nth_Cons_0 zero_less_numeral,
        metis nth_map nth_Cons_0 nth_Cons_Suc One_nat_def one_less_numeral_iff semiring_norm(76))
  have mem: "?s2 \<in> set (candidates (students storeS) (bulkDto ''y1'' ''y2'')
                 (the (sourceYear (bulkDto ''y1'' ''y2'') None)))"
    using len by (simp add: storeS_candidates(1))
  have s2: "sectionId ?s2 \<noteq> []" "\<not> hasEquivalent (sections storeS) ''c10'' (sectionId ?s2)"
    using ids storeS_candidates(4) by simp_all
  from unmapped_section_aborts_batch [OF storeS_facts sec mem s2]
  obtain u where u: "u \<in> set (students storeS)"
    and nu: "\<not> hasEquivalent (sections storeS) ''c10'' (sectionId u)"
    and r: "promoteBulk storeS (bulkDto ''y1'' ''y2'') None
               = (Inl (BadRequestException (msgNoMatch (sectionId u))), storeS)"
    by (auto simp: storeS_candidates(1))
  from u have "sectionId u \<in> set (map sectionId (students storeS))" by simp
  then have "sectionId u = ''x9a'' \<or> sectionId u = ''x9b''" by (simp add: storeS_candidates(2))
  with nu storeS_candidates(3) have "sectionId u = ''x9b''" by auto
  moreover have "msgNoMatch ''x9b''
      = ''No matching section found in target class for section ID: x9b. Please specify a target section.''"
    by code_simp
  ultimately show ?thesis using r by simp
qed

subsection \<open>Bulk re-admission\<close>

















subsection \<open>Snapshot and ledger after a successful call\<close>















lemma storeD_reachable: "reachable storeD"
  unfolding storeD_def
  by (intro reachable.call reachable.initial) (simp_all add: emptyStore_def)


end
